theory Spec2Isabelle
  imports Main "HOL-Library.AList" "HOL-Library.Word"
begin

section \<open>Python values\<close>

text \<open>
  The adapter and the pass-through routes move JSON-like Python values around without
  computing on them; the only operation applied to an arbitrary value is its truth value
  (\<^verbatim>\<open>if token:\<close>, \<^verbatim>\<open>if stream\<close>, \<^verbatim>\<open>if _request_body.get("stream"):\<close>).
  A finite float is a mantissa and a binary exponent (0.5 is \<open>PFloat 1 (-1)\<close>); a
  string is the list of its characters, each a code point below 256; a dictionary is an
  association list in insertion order.

  A dictionary key is a str, \<^verbatim>\<open>None\<close> or a number. A number is a key by its value,
  \<^verbatim>\<open>True\<close>, \<^verbatim>\<open>1\<close> and \<^verbatim>\<open>1.0\<close> being one key: \<open>KNum m e\<close> stands for \<open>m * 2 ^ e\<close>,
  with \<open>m\<close> odd, or is \<open>KNum 0 0\<close>.
\<close>

datatype pykey = KStr string | KNone | KNum int int

datatype pyval =
    PNone
  | PBool bool
  | PInt int
  | PFloat int int
  | PStr string
  | PList "pyval list"
  | PDict "(pykey \<times> pyval) list"

type_synonym pydict = "(pykey \<times> pyval) list"

type_synonym bytes = "8 word list"

text \<open>The exceptions the modelled code can raise or let through.\<close>

datatype error =
    WatsonXAIError int string
  | HTTPException int
  | JSONDecodeError
  | AttributeError
  | KeyError
  | TypeError
  | ValueError
  | InvalidURL
  | BinasciiError
  | CryptoError
  | UnicodeDecodeError
  | UnicodeEncodeError
  | Exception string

fun truthy :: "pyval \<Rightarrow> bool" where
  "truthy PNone = False"
| "truthy (PBool b) = b"
| "truthy (PInt i) = (i \<noteq> 0)"
| "truthy (PFloat m e) = (m \<noteq> 0)"
| "truthy (PStr s) = (s \<noteq> [])"
| "truthy (PList xs) = (xs \<noteq> [])"
| "truthy (PDict d) = (d \<noteq> [])"

text \<open>
  The key a value makes, or the \<^verbatim>\<open>TypeError\<close> of an unhashable one; and the value a
  key gives back when a dictionary is iterated.
\<close>

function dyadic :: "int \<Rightarrow> int \<Rightarrow> int \<times> int" where
  "dyadic m e =
     (if m = 0 then (0, 0) else if even m then dyadic (m div 2) (e + 1) else (m, e))"
  by pat_completeness auto
termination
  by (relation "measure (\<lambda>(m, e). nat \<bar>m\<bar>)") auto

definition key_num :: "int \<Rightarrow> int \<Rightarrow> pykey" where
  "key_num m e = (case dyadic m e of (m', e') \<Rightarrow> KNum m' e')"

fun key_of :: "pyval \<Rightarrow> error + pykey" where
  "key_of (PStr s) = Inr (KStr s)"
| "key_of PNone = Inr KNone"
| "key_of (PBool b) = Inr (key_num (if b then 1 else 0) 0)"
| "key_of (PInt i) = Inr (key_num i 0)"
| "key_of (PFloat m e) = Inr (key_num m e)"
| "key_of (PList xs) = Inl TypeError"
| "key_of (PDict d) = Inl TypeError"

fun key_value :: "pykey \<Rightarrow> pyval" where
  "key_value (KStr s) = PStr s"
| "key_value KNone = PNone"
| "key_value (KNum m e) = (if 0 \<le> e then PInt (m * 2 ^ nat e) else PFloat m e)"

text \<open>
  With a str \<open>k\<close>: \<^verbatim>\<open>d.get(k)\<close> is \<open>dict_get d k\<close>, \<^verbatim>\<open>d[k] = v\<close> is \<open>dict_set d k v\<close>
  (the entry is replaced in place, or appended); \<^verbatim>\<open>d.pop(k, default)\<close> and
  \<^verbatim>\<open>d.update(e)\<close> for a dictionary \<open>e\<close> follow.
\<close>

abbreviation dict_get :: "pydict \<Rightarrow> string \<Rightarrow> pyval option" where
  "dict_get d k \<equiv> map_of d (KStr k)"

abbreviation dict_set :: "pydict \<Rightarrow> string \<Rightarrow> pyval \<Rightarrow> pydict" where
  "dict_set d k v \<equiv> AList.update (KStr k) v d"

definition dict_pop :: "pydict \<Rightarrow> string \<Rightarrow> pyval \<Rightarrow> pyval \<times> pydict" where
  "dict_pop d k dflt =
     ((case dict_get d k of Some v \<Rightarrow> v | None \<Rightarrow> dflt), AList.delete (KStr k) d)"

definition dict_update :: "pydict \<Rightarrow> pydict \<Rightarrow> pydict" where
  "dict_update d e = fold (\<lambda>(k, v) acc. AList.update k v acc) e d"

definition dict_index :: "pydict \<Rightarrow> string \<Rightarrow> error + pyval" where
  "dict_index d k = (case dict_get d k of Some v \<Rightarrow> Inr v | None \<Rightarrow> Inl KeyError)"

definition wf_dict :: "pydict \<Rightarrow> bool" where
  "wf_dict d = distinct (map fst d)"

section \<open>The watsonx adapter: parameter mapping\<close>

text \<open>
  One round of the loop of \<^verbatim>\<open>IBMWatsonXAIConfig.map_openai_params\<close>: the state is
  the pair of \<^verbatim>\<open>optional_params\<close> and the local \<^verbatim>\<open>extra_body\<close>. A key matched by no
  branch changes nothing.
\<close>

fun map_param :: "pykey \<times> pyval \<Rightarrow> pydict \<times> pydict \<Rightarrow> pydict \<times> pydict" where
  "map_param (k, v) (optional_params, extra_body) =
     (if k = KStr ''max_tokens'' then (dict_set optional_params ''max_new_tokens'' v, extra_body)
      else if k = KStr ''stream'' then (dict_set optional_params ''stream'' v, extra_body)
      else if k = KStr ''temperature'' then (dict_set optional_params ''temperature'' v, extra_body)
      else if k = KStr ''top_p'' then (dict_set optional_params ''top_p'' v, extra_body)
      else if k = KStr ''frequency_penalty'' then
        (dict_set optional_params ''repetition_penalty'' v, extra_body)
      else if k = KStr ''seed'' then (dict_set optional_params ''random_seed'' v, extra_body)
      else if k = KStr ''stop'' then (dict_set optional_params ''stop_sequences'' v, extra_body)
      else if k = KStr ''decoding_method'' then
        (optional_params, dict_set extra_body ''decoding_method'' v)
      else if k = KStr ''min_tokens'' then
        (optional_params, dict_set extra_body ''min_new_tokens'' v)
      else if k = KStr ''top_k'' then (optional_params, dict_set extra_body ''top_k'' v)
      else if k = KStr ''truncate_input_tokens'' then
        (optional_params, dict_set extra_body ''truncate_input_tokens'' v)
      else if k = KStr ''length_penalty'' then
        (optional_params, dict_set extra_body ''length_penalty'' v)
      else if k = KStr ''time_limit'' then (optional_params, dict_set extra_body ''time_limit'' v)
      else if k = KStr ''return_options'' then
        (optional_params, dict_set extra_body ''return_options'' v)
      else (optional_params, extra_body))"

definition map_openai_params :: "pydict \<Rightarrow> pydict \<Rightarrow> string \<Rightarrow> bool \<Rightarrow> pydict" where
  "map_openai_params non_default_params optional_params model drop_params =
     (case fold map_param non_default_params (optional_params, []) of
        (optional_params', extra_body) \<Rightarrow>
          if extra_body \<noteq> [] then dict_set optional_params' ''extra_body'' (PDict extra_body)
          else optional_params')"

text \<open>
  The two destination tables the branches of the loop implement, read off the chain of
  comparisons: the top-level field a canonical key is written to, and the field of the
  extra body it is written to.
\<close>

definition top_level_field :: "pykey \<Rightarrow> string option" where
  "top_level_field k =
     map_of [(KStr ''max_tokens'', ''max_new_tokens''), (KStr ''stream'', ''stream''),
             (KStr ''temperature'', ''temperature''), (KStr ''top_p'', ''top_p''),
             (KStr ''frequency_penalty'', ''repetition_penalty''), (KStr ''seed'', ''random_seed''),
             (KStr ''stop'', ''stop_sequences'')] k"

definition extra_body_field :: "pykey \<Rightarrow> string option" where
  "extra_body_field k =
     map_of [(KStr ''decoding_method'', ''decoding_method''), (KStr ''min_tokens'', ''min_new_tokens''),
             (KStr ''top_k'', ''top_k''), (KStr ''truncate_input_tokens'', ''truncate_input_tokens''),
             (KStr ''length_penalty'', ''length_penalty''), (KStr ''time_limit'', ''time_limit''),
             (KStr ''return_options'', ''return_options'')] k"

text \<open>The extra-body entries of a parameter set, in the order the keys were passed.\<close>

fun extra_body_entries :: "pydict \<Rightarrow> pydict" where
  "extra_body_entries [] = []"
| "extra_body_entries ((k, v) # ps) =
     (case extra_body_field k of
        Some f \<Rightarrow> (KStr f, v) # extra_body_entries ps
      | None \<Rightarrow> extra_body_entries ps)"

section \<open>Python string operations\<close>

definition startswith :: "string \<Rightarrow> string \<Rightarrow> bool" where
  "startswith s p = (take (length p) s = p)"

text \<open>\<^verbatim>\<open>sub in s\<close> on strings.\<close>

fun contains :: "string \<Rightarrow> string \<Rightarrow> bool" where
  "contains sub [] = (sub = [])"
| "contains sub (c # cs) = (startswith (c # cs) sub \<or> contains sub cs)"

text \<open>\<^verbatim>\<open>s.split(c)\<close> for a one-character separator: never the empty list.\<close>

fun py_split :: "char \<Rightarrow> string \<Rightarrow> string list" where
  "py_split c [] = [[]]"
| "py_split c (x # xs) =
     (if x = c then [] # py_split c xs
      else (case py_split c xs of
              w # ws \<Rightarrow> (x # w) # ws
            | [] \<Rightarrow> [[x]]))"

fun py_join :: "string \<Rightarrow> string list \<Rightarrow> string" where
  "py_join sep [] = []"
| "py_join sep [w] = w"
| "py_join sep (w # ws) = w @ sep @ py_join sep ws"

definition rstrip :: "char \<Rightarrow> string \<Rightarrow> string" where
  "rstrip c s = rev (dropWhile (\<lambda>x. x = c) (rev s))"

text \<open>
  \<^verbatim>\<open>a or b\<close> on optional strings: \<open>a\<close> when it is a non-empty string, else \<open>b\<close>.
\<close>

definition py_or :: "string option \<Rightarrow> string option \<Rightarrow> string option" where
  "py_or a b = (case a of Some s \<Rightarrow> (if s \<noteq> [] then a else b) | None \<Rightarrow> b)"

text \<open>A source that \<^verbatim>\<open>or\<close> stops at: a string that is set and not empty.\<close>

definition nonempty :: "string option \<Rightarrow> bool" where
  "nonempty x = (case x of Some s \<Rightarrow> s \<noteq> [] | None \<Rightarrow> False)"

text \<open>\<^verbatim>\<open>d.get(k)\<close> as a value: \<^verbatim>\<open>None\<close> for a missing key.\<close>

definition py_get :: "pydict \<Rightarrow> string \<Rightarrow> pyval" where
  "py_get d k = (case dict_get d k of Some v \<Rightarrow> v | None \<Rightarrow> PNone)"

text \<open>\<^verbatim>\<open>"{}".format(x)\<close> for an optional string.\<close>

definition format_opt :: "string option \<Rightarrow> string" where
  "format_opt x = (case x of Some s \<Rightarrow> s | None \<Rightarrow> ''None'')"

section \<open>The watsonx adapter: payload, headers and URL\<close>

text \<open>
  What \<^verbatim>\<open>IBMWatsonXAIConfig\<close> calls but does not define is a parameter of the model:
  the secret lookup \<^verbatim>\<open>get_secret_str\<close>; the helpers of \<^verbatim>\<open>watsonx/common_utils\<close>
  (\<^verbatim>\<open>_get_api_params\<close>, which reads and removes entries of the dictionary it is given
  and so returns it too; \<^verbatim>\<open>convert_watsonx_messages_to_prompt\<close> with its arguments model,
  messages, provider; \<^verbatim>\<open>_generate_watsonx_token\<close> with its arguments api_key, token);
  Python's \<^verbatim>\<open>str()\<close> on a value that is not a string; the constant
  \<^verbatim>\<open>litellm.WATSONX_DEFAULT_API_VERSION\<close>; and the members of the enumeration
  \<^verbatim>\<open>WatsonXAIEndpoint\<close>, the two deployment templates as functions of the
  \<^verbatim>\<open>deployment_id\<close> that \<^verbatim>\<open>.format\<close> fills in.
\<close>

record watsonx_env =
  get_secret_str :: "string \<Rightarrow> string option"
  get_api_params :: "pydict \<Rightarrow> error + (pydict \<times> pydict)"
  convert_watsonx_messages_to_prompt :: "string \<Rightarrow> pyval list \<Rightarrow> string \<Rightarrow> error + string"
  generate_watsonx_token :: "string option \<Rightarrow> pyval \<Rightarrow> error + string"
  py_str :: "pyval \<Rightarrow> string"
  WATSONX_DEFAULT_API_VERSION :: string
  TEXT_GENERATION :: string
  TEXT_GENERATION_STREAM :: string
  DEPLOYMENT_TEXT_GENERATION :: "string \<Rightarrow> string"
  DEPLOYMENT_TEXT_GENERATION_STREAM :: "string \<Rightarrow> string"

text \<open>A value inside an f-string.\<close>

definition fstring :: "watsonx_env \<Rightarrow> pyval \<Rightarrow> string" where
  "fstring E v = (case v of PStr s \<Rightarrow> s | _ \<Rightarrow> py_str E v)"

text \<open>
  \<^verbatim>\<open>optional_params.update(extra_body_params)\<close>. The entries of a dictionary are
  written over the parameters. Any other argument is iterated as a sequence of key and
  value pairs: each item must itself be iterable (else \<^verbatim>\<open>TypeError\<close>) with exactly two
  elements (else \<^verbatim>\<open>ValueError\<close>), the first of them hashable; a str item gives its two
  characters, a dictionary item its two keys. So the empty list and the empty str change
  nothing, a str that is not empty fails on its first character, and a value that cannot
  be iterated is a \<^verbatim>\<open>TypeError\<close>.
\<close>

definition pair_of_item :: "pyval \<Rightarrow> error + (pykey \<times> pyval)" where
  "pair_of_item item =
     (case item of
        PList xs \<Rightarrow>
          (case xs of
             [k, v] \<Rightarrow> (case key_of k of Inl e \<Rightarrow> Inl e | Inr k' \<Rightarrow> Inr (k', v))
           | _ \<Rightarrow> Inl ValueError)
      | PStr s \<Rightarrow>
          (case s of
             [a, b] \<Rightarrow> Inr (KStr [a], PStr [b])
           | _ \<Rightarrow> Inl ValueError)
      | PDict d \<Rightarrow>
          (case d of
             [(k1, v1), (k2, v2)] \<Rightarrow> Inr (k1, key_value k2)
           | _ \<Rightarrow> Inl ValueError)
      | _ \<Rightarrow> Inl TypeError)"

fun update_from_pairs :: "pydict \<Rightarrow> pyval list \<Rightarrow> error + pydict" where
  "update_from_pairs d [] = Inr d"
| "update_from_pairs d (item # items) =
     (case pair_of_item item of
        Inl e \<Rightarrow> Inl e
      | Inr (k, v) \<Rightarrow> update_from_pairs (AList.update k v d) items)"

definition update_with :: "pydict \<Rightarrow> pyval \<Rightarrow> error + pydict" where
  "update_with d v =
     (case v of
        PDict e \<Rightarrow> Inr (dict_update d e)
      | PList items \<Rightarrow> update_from_pairs d items
      | PStr s \<Rightarrow> (if s = [] then Inr d else Inl ValueError)
      | _ \<Rightarrow> Inl TypeError)"

text \<open>
  The two lines of \<^verbatim>\<open>transform_request\<close> that fold the extra body back into the
  parameters, on their own:
  \<^verbatim>\<open>
  extra_body_params = optional_params.pop("extra_body", {})
  optional_params.update(extra_body_params)
  \<close>
\<close>

definition merge_extra_body :: "pydict \<Rightarrow> error + pydict" where
  "merge_extra_body optional_params =
     (case dict_pop optional_params ''extra_body'' (PDict []) of
        (extra_body_params, params1) \<Rightarrow> update_with params1 extra_body_params)"

text \<open>
  \<^verbatim>\<open>IBMWatsonXAIConfig.transform_request\<close>. The payload's \<^verbatim>\<open>parameters\<close> is the
  \<^verbatim>\<open>optional_params\<close> object itself, so it shows every removal made on the way:
  of \<^verbatim>\<open>extra_body\<close>, of what \<^verbatim>\<open>_get_api_params\<close> takes, of \<^verbatim>\<open>moderations\<close>.
\<close>

definition transform_request ::
  "watsonx_env \<Rightarrow> string \<Rightarrow> pyval list \<Rightarrow> pydict \<Rightarrow> error + pydict" where
  "transform_request E model messages optional_params =
     (case py_split CHR ''/'' model of
        [] \<Rightarrow> Inl (Exception ''IndexError'')
      | provider # _ \<Rightarrow>
     (case convert_watsonx_messages_to_prompt E model messages provider of
        Inl e \<Rightarrow> Inl e
      | Inr prompt \<Rightarrow>
     (case dict_pop optional_params ''extra_body'' (PDict []) of
        (extra_body_params, params1) \<Rightarrow>
     (case update_with params1 extra_body_params of
        Inl e \<Rightarrow> Inl e
      | Inr params2 \<Rightarrow>
     (case get_api_params E params2 of
        Inl e \<Rightarrow> Inl e
      | Inr (watsonx_api_params, params3) \<Rightarrow>
     (case dict_pop params3 ''moderations'' (PDict []) of
        (moderations, params4) \<Rightarrow>
          let payload = [(KStr ''input'', PStr prompt), (KStr ''moderations'', moderations),
                         (KStr ''parameters'', PDict params4)]
          in if \<not> startswith model ''deployment/'' then
               (case dict_index watsonx_api_params ''project_id'' of
                  Inl e \<Rightarrow> Inl e
                | Inr project_id \<Rightarrow>
                    Inr (dict_set (dict_set payload ''model_id'' (PStr model))
                           ''project_id'' project_id))
             else Inr payload))))))"

text \<open>
  \<^verbatim>\<open>IBMWatsonXAIConfig.validate_environment\<close>: the \<^verbatim>\<open>headers\<close> argument is
  rebound to a fresh dictionary before it is read.
\<close>

definition validate_environment ::
  "watsonx_env \<Rightarrow> (string \<times> string) list \<Rightarrow> string \<Rightarrow> pyval list \<Rightarrow> pydict \<Rightarrow>
   string option \<Rightarrow> error + (string \<times> string) list" where
  "validate_environment E headers model messages optional_params api_key =
     (let headers' = [(''Content-Type'', ''application/json''),
                      (''Accept'', ''application/json'')];
          token = py_get optional_params ''token''
      in if truthy token then
           Inr (AList.update ''Authorization'' (''Bearer '' @ fstring E token) headers')
         else
           (case generate_watsonx_token E api_key token of
              Inl e \<Rightarrow> Inl e
            | Inr token' \<Rightarrow>
                Inr (AList.update ''Authorization'' (''Bearer '' @ token') headers')))"

definition url_not_set_message :: string where
  "url_not_set_message =
     ''Error: Watsonx URL not set. Set WATSONX_API_BASE in environment variables or pass in as parameter - ''
     @ [CHR 0x27] @ ''api_base='' @ [CHR 0x27] @ ''.''"

definition space_id_required_message :: string where
  "space_id_required_message =
     ''Error: space_id is required for models called using the '' @ [CHR 0x27]
     @ ''deployment/'' @ [CHR 0x27]
     @ '' endpoint. Pass in the space_id as a parameter or set it in the WX_SPACE_ID environment variable.''"

text \<open>The chain of \<^verbatim>\<open>or\<close> that opens \<^verbatim>\<open>get_complete_url\<close>.\<close>

definition resolve_url :: "watsonx_env \<Rightarrow> string option \<Rightarrow> string option" where
  "resolve_url E api_base =
     py_or api_base
       (py_or (get_secret_str E ''WATSONX_API_BASE'')
          (py_or (get_secret_str E ''WATSONX_URL'')
             (py_or (get_secret_str E ''WX_URL'') (get_secret_str E ''WML_URL''))))"

text \<open>
  The endpoint chosen by \<^verbatim>\<open>get_complete_url\<close>; \<^verbatim>\<open>"/".join(model.split("/")[1:])\<close>
  is the deployment identifier.
\<close>

definition select_endpoint :: "watsonx_env \<Rightarrow> string \<Rightarrow> pydict \<Rightarrow> pyval \<Rightarrow> error + string" where
  "select_endpoint E model optional_params stream =
     (if startswith model ''deployment/'' then
        (if py_get optional_params ''space_id'' = PNone then
           Inl (WatsonXAIError 401 space_id_required_message)
         else
           let deployment_id = py_join ''/'' (drop 1 (py_split CHR ''/'' model))
           in Inr ((if truthy stream then DEPLOYMENT_TEXT_GENERATION_STREAM E
                    else DEPLOYMENT_TEXT_GENERATION E) deployment_id))
      else
        Inr (if truthy stream then TEXT_GENERATION_STREAM E else TEXT_GENERATION E))"

text \<open>
  \<^verbatim>\<open>IBMWatsonXAIConfig.get_complete_url\<close>; it returns the URL, and here also
  \<^verbatim>\<open>optional_params\<close> as it leaves it, without \<^verbatim>\<open>api_version\<close>.
\<close>

definition get_complete_url ::
  "watsonx_env \<Rightarrow> string option \<Rightarrow> string \<Rightarrow> pydict \<Rightarrow> pyval \<Rightarrow> error + (string \<times> pydict)" where
  "get_complete_url E api_base model optional_params stream =
     (case resolve_url E api_base of
        None \<Rightarrow> Inl (WatsonXAIError 401 url_not_set_message)
      | Some url \<Rightarrow>
          (case select_endpoint E model optional_params stream of
             Inl e \<Rightarrow> Inl e
           | Inr endpoint \<Rightarrow>
               (case dict_pop optional_params ''api_version''
                       (PStr (WATSONX_DEFAULT_API_VERSION E)) of
                  (api_version, optional_params') \<Rightarrow>
                    Inr (rstrip CHR ''/'' url @ endpoint @ ''?version='' @ fstring E api_version,
                         optional_params'))))"

section \<open>Pass-through routes\<close>

text \<open>
  Of the inbound request the routes read the method, the URL, the query parameters and
  \<^verbatim>\<open>await request.json()\<close>: the parsed body, or the exception the parser raises on an
  absent or malformed body.
\<close>

record request =
  req_method :: string
  req_url :: string
  req_query_params :: "(string \<times> string) list"
  req_json :: "error + pyval"

text \<open>
  The collaborators of the routes: \<^verbatim>\<open>httpx.URL(endpoint).path\<close>, and
  \<^verbatim>\<open>str(httpx.URL(base).copy_with(path=p))\<close> with its arguments base, p (either may
  reject its input); \<^verbatim>\<open>passthrough_endpoint_router.get_credentials\<close> with its arguments
  custom_llm_provider, region_name; and \<^verbatim>\<open>get_secret_str\<close>.
\<close>

record passthrough_env =
  url_path :: "string \<Rightarrow> error + string"
  copy_with_path :: "string \<Rightarrow> string \<Rightarrow> error + string"
  get_credentials :: "string \<Rightarrow> string option \<Rightarrow> string option"
  secret_str :: "string \<Rightarrow> string option"

text \<open>
  What a route hands to \<^verbatim>\<open>create_pass_through_route\<close> and to the endpoint function
  it returns: the prepared outbound call.
\<close>

record passthrough_call =
  pt_endpoint :: string
  pt_target :: string
  pt_custom_headers :: "(string \<times> string) list"
  pt_forward_headers :: bool
  pt_stream :: bool
  pt_query_params :: "(string \<times> string) list option"

text \<open>The steps every route starts with: the encoded endpoint, with a leading slash.\<close>

definition encoded_endpoint :: "passthrough_env \<Rightarrow> string \<Rightarrow> error + string" where
  "encoded_endpoint P endpoint =
     (case url_path P endpoint of
        Inl e \<Rightarrow> Inl e
      | Inr p \<Rightarrow> Inr (if \<not> startswith p ''/'' then ''/'' @ p else p))"

definition updated_url :: "passthrough_env \<Rightarrow> string \<Rightarrow> string \<Rightarrow> error + string" where
  "updated_url P base_target_url endpoint =
     (case encoded_endpoint P endpoint of
        Inl e \<Rightarrow> Inl e
      | Inr p \<Rightarrow> copy_with_path P base_target_url p)"

text \<open>
  The streaming check of the anthropic and assemblyai routes:
  \<^verbatim>\<open>
  is_streaming_request = False
  if request.method == "POST":
      _request_body = await request.json()
      if _request_body.get("stream"):
          is_streaming_request = True
  \<close>
  Only a dictionary has \<^verbatim>\<open>get\<close>.
\<close>

definition body_stream_flag :: "request \<Rightarrow> error + bool" where
  "body_stream_flag request =
     (if req_method request = ''POST'' then
        (case req_json request of
           Inl e \<Rightarrow> Inl e
         | Inr body \<Rightarrow>
             (case body of
                PDict d \<Rightarrow> Inr (truthy (py_get d ''stream''))
              | _ \<Rightarrow> Inl AttributeError))
      else Inr False)"

definition anthropic_proxy_route ::
  "passthrough_env \<Rightarrow> string \<Rightarrow> request \<Rightarrow> error + passthrough_call" where
  "anthropic_proxy_route P endpoint request =
     (case updated_url P ''https://api.anthropic.com'' endpoint of
        Inl e \<Rightarrow> Inl e
      | Inr url \<Rightarrow>
          let anthropic_api_key = get_credentials P ''anthropic'' None
          in (case body_stream_flag request of
                Inl e \<Rightarrow> Inl e
              | Inr is_streaming_request \<Rightarrow>
                  Inr \<lparr>pt_endpoint = endpoint, pt_target = url,
                       pt_custom_headers = [(''x-api-key'', format_opt anthropic_api_key)],
                       pt_forward_headers = True,
                       pt_stream = is_streaming_request,
                       pt_query_params = None\<rparr>))"

definition assemblyai_proxy_route ::
  "passthrough_env \<Rightarrow> string \<Rightarrow> request \<Rightarrow> error + passthrough_call" where
  "assemblyai_proxy_route P endpoint request =
     (let is_eu_route = contains ''eu.assemblyai'' (req_url request);
          base_target_url = (if is_eu_route then ''https://api.eu.assemblyai.com''
                             else ''https://api.assemblyai.com'')
      in case updated_url P base_target_url endpoint of
           Inl e \<Rightarrow> Inl e
         | Inr url \<Rightarrow>
             let assemblyai_api_key =
                   get_credentials P ''assemblyai'' (if is_eu_route then Some ''eu'' else None)
             in (case body_stream_flag request of
                   Inl e \<Rightarrow> Inl e
                 | Inr is_streaming_request \<Rightarrow>
                     Inr \<lparr>pt_endpoint = endpoint, pt_target = url,
                          pt_custom_headers = [(''Authorization'', format_opt assemblyai_api_key)],
                          pt_forward_headers = False,
                          pt_stream = is_streaming_request,
                          pt_query_params = None\<rparr>))"

definition base_openai_pass_through_handler ::
  "passthrough_env \<Rightarrow> string \<Rightarrow> request \<Rightarrow> string \<Rightarrow> string \<Rightarrow> error + passthrough_call" where
  "base_openai_pass_through_handler P endpoint request base_target_url api_key =
     (case updated_url P base_target_url endpoint of
        Inl e \<Rightarrow> Inl e
      | Inr url \<Rightarrow>
          Inr \<lparr>pt_endpoint = endpoint, pt_target = url,
               pt_custom_headers = [(''authorization'', ''Bearer '' @ api_key),
                                    (''api-key'', api_key)],
               pt_forward_headers = False,
               pt_stream = contains ''stream'' url,
               pt_query_params = Some (req_query_params request)\<rparr>)"

definition required_in_environment :: "string \<Rightarrow> string \<Rightarrow> string" where
  "required_in_environment name provider =
     ''Required '' @ [CHR 0x27] @ name @ [CHR 0x27]
     @ '' in environment to make pass-through calls to '' @ provider @ ''.''"

definition openai_proxy_route ::
  "passthrough_env \<Rightarrow> string \<Rightarrow> request \<Rightarrow> error + passthrough_call" where
  "openai_proxy_route P endpoint request =
     (case get_credentials P ''openai'' None of
        None \<Rightarrow> Inl (Exception (required_in_environment ''OPENAI_API_KEY'' ''OpenAI''))
      | Some openai_api_key \<Rightarrow>
          base_openai_pass_through_handler P endpoint request ''https://api.openai.com''
            openai_api_key)"

definition azure_proxy_route ::
  "passthrough_env \<Rightarrow> string \<Rightarrow> request \<Rightarrow> error + passthrough_call" where
  "azure_proxy_route P endpoint request =
     (case secret_str P ''AZURE_API_BASE'' of
        None \<Rightarrow> Inl (Exception (required_in_environment ''AZURE_API_BASE'' ''Azure''))
      | Some base_target_url \<Rightarrow>
          (case get_credentials P ''azure'' None of
             None \<Rightarrow> Inl (Exception (required_in_environment ''AZURE_API_KEY'' ''Azure''))
           | Some azure_api_key \<Rightarrow>
               base_openai_pass_through_handler P endpoint request base_target_url
                 azure_api_key))"

section \<open>Protecting stored secrets\<close>

text \<open>
  A secret, a key or a ciphertext in text form is a str of any content, so here a str is
  the list of its code points, whatever they are: \<^verbatim>\<open>"\ud800"\<close>, a lone surrogate, is
  \<open>[0xD800]\<close>. The text of a string of characters is \<open>unicode_of\<close> it. A value handed to
  the helpers is a str or something else.
\<close>

type_synonym unicode = "nat list"

definition unicode_of :: "string \<Rightarrow> unicode" where
  "unicode_of s = map of_char s"

datatype secret_value = SStr unicode | SOther pyval

text \<open>
  \<^verbatim>\<open>str.encode\<close> to UTF-8 refuses a str that holds a surrogate code point, with
  \<^verbatim>\<open>UnicodeEncodeError\<close>; every other str has an encoding. (A number above \<open>0x10FFFF\<close> is
  no code point and is refused here too.)
\<close>

definition is_surrogate :: "nat \<Rightarrow> bool" where
  "is_surrogate cp = (0xD800 \<le> cp \<and> cp \<le> 0xDFFF)"

definition encodable :: "unicode \<Rightarrow> bool" where
  "encodable s = list_all (\<lambda>cp. cp \<le> 0x10FFFF \<and> \<not> is_surrogate cp) s"

text \<open>
  The primitives \<^verbatim>\<open>encrypt_decrypt_utils\<close> composes are libraries outside the
  repository: \<^verbatim>\<open>hashlib.sha256(b).digest()\<close>; the bytes of the UTF-8 encoding of a str
  that has one, and \<^verbatim>\<open>bytes.decode("utf-8")\<close>; \<^verbatim>\<open>nacl.secret.SecretBox(key).encrypt\<close>,
  whose fresh random nonce is an argument here (key, nonce, message), and
  \<^verbatim>\<open>SecretBox(key).decrypt\<close> (key, message); \<^verbatim>\<open>base64.b64encode(b).decode("utf-8")\<close> and
  \<^verbatim>\<open>base64.b64decode\<close>.
\<close>

record crypto =
  sha256 :: "bytes \<Rightarrow> bytes"
  utf8_bytes :: "unicode \<Rightarrow> bytes"
  utf8_decode :: "bytes \<Rightarrow> error + unicode"
  box_encrypt :: "bytes \<Rightarrow> bytes \<Rightarrow> bytes \<Rightarrow> bytes"
  box_decrypt :: "bytes \<Rightarrow> bytes \<Rightarrow> error + bytes"
  b64encode :: "bytes \<Rightarrow> unicode"
  b64decode :: "unicode \<Rightarrow> error + bytes"

text \<open>\<^verbatim>\<open>s.encode()\<close> and \<^verbatim>\<open>s.encode("utf-8")\<close>.\<close>

definition utf8_encode :: "crypto \<Rightarrow> unicode \<Rightarrow> error + bytes" where
  "utf8_encode C s = (if encodable s then Inr (utf8_bytes C s) else Inl UnicodeEncodeError)"

text \<open>The contracts of the primitives: each decoder inverts its encoder.\<close>

definition crypto_contract :: "crypto \<Rightarrow> bool" where
  "crypto_contract C =
     ((\<forall>key nonce m. box_decrypt C key (box_encrypt C key nonce m) = Inr m) \<and>
      (\<forall>s. encodable s \<longrightarrow> utf8_decode C (utf8_bytes C s) = Inr s) \<and>
      (\<forall>b. b64decode C (b64encode C b) = Inr b))"

text \<open>The process state \<^verbatim>\<open>_get_salt_key\<close> reads.\<close>

record proxy_state =
  LITELLM_SALT_KEY :: "unicode option"
  master_key :: "unicode option"

definition get_salt_key :: "proxy_state \<Rightarrow> unicode option" where
  "get_salt_key S =
     (case LITELLM_SALT_KEY S of None \<Rightarrow> master_key S | Some salt_key \<Rightarrow> Some salt_key)"

text \<open>
  \<^verbatim>\<open>encrypt_value\<close>: \<^verbatim>\<open>signing_key.encode()\<close> on \<^verbatim>\<open>None\<close> is an \<^verbatim>\<open>AttributeError\<close>;
  the key is encoded first, the value after the box is set up.
\<close>

definition encrypt_value :: "crypto \<Rightarrow> bytes \<Rightarrow> unicode \<Rightarrow> unicode option \<Rightarrow> error + bytes" where
  "encrypt_value C nonce value signing_key =
     (case signing_key of
        None \<Rightarrow> Inl AttributeError
      | Some k \<Rightarrow>
          (case utf8_encode C k of
             Inl e \<Rightarrow> Inl e
           | Inr key_bytes \<Rightarrow>
               let hash_bytes = sha256 C key_bytes
               in (case utf8_encode C value of
                     Inl e \<Rightarrow> Inl e
                   | Inr value_bytes \<Rightarrow> Inr (box_encrypt C hash_bytes nonce value_bytes))))"

definition decrypt_value :: "crypto \<Rightarrow> bytes \<Rightarrow> unicode option \<Rightarrow> error + unicode" where
  "decrypt_value C value signing_key =
     (case signing_key of
        None \<Rightarrow> Inl AttributeError
      | Some k \<Rightarrow>
          (case utf8_encode C k of
             Inl e \<Rightarrow> Inl e
           | Inr key_bytes \<Rightarrow>
               let hash_bytes = sha256 C key_bytes
               in (case box_decrypt C hash_bytes value of
                     Inl e \<Rightarrow> Inl e
                   | Inr plaintext \<Rightarrow> utf8_decode C plaintext)))"

text \<open>\<^verbatim>\<open>encrypt_value_helper\<close>: its handler re-raises.\<close>

definition encrypt_value_helper ::
  "crypto \<Rightarrow> proxy_state \<Rightarrow> bytes \<Rightarrow> secret_value \<Rightarrow> error + secret_value" where
  "encrypt_value_helper C S nonce value =
     (let signing_key = get_salt_key S
      in case value of
           SStr s \<Rightarrow>
             (case encrypt_value C nonce s signing_key of
                Inl e \<Rightarrow> Inl e
              | Inr encrypted_value \<Rightarrow> Inr (SStr (b64encode C encrypted_value)))
         | SOther v \<Rightarrow> Inr value)"

text \<open>The \<^verbatim>\<open>try\<close> block of \<^verbatim>\<open>decrypt_value_helper\<close>.\<close>

definition decrypt_value_helper_try ::
  "crypto \<Rightarrow> unicode option \<Rightarrow> secret_value \<Rightarrow> error + secret_value" where
  "decrypt_value_helper_try C signing_key value =
     (case value of
        SStr s \<Rightarrow>
          (case b64decode C s of
             Inl e \<Rightarrow> Inl e
           | Inr decoded_b64 \<Rightarrow>
               (case decrypt_value C decoded_b64 signing_key of
                  Inl e \<Rightarrow> Inl e
                | Inr plaintext \<Rightarrow> Inr (SStr plaintext)))
      | SOther v \<Rightarrow> Inr value)"

text \<open>
  \<^verbatim>\<open>decrypt_value_helper\<close>: the handler logs and falls through, so the call returns
  \<^verbatim>\<open>None\<close>.
\<close>

definition decrypt_value_helper ::
  "crypto \<Rightarrow> proxy_state \<Rightarrow> secret_value \<Rightarrow> error + secret_value" where
  "decrypt_value_helper C S value =
     (let signing_key = get_salt_key S
      in case decrypt_value_helper_try C signing_key value of
           Inl e \<Rightarrow> Inr (SOther PNone)
         | Inr v \<Rightarrow> Inr v)"

section \<open>Instances of the collaborators\<close>

text \<open>
  Concrete collaborators, on which the definitions above can be run. The endpoint paths
  and the default version are those of the watsonx.ai REST interface; the helpers are
  small stand-ins: the project comes from the parameters, the prompt is the messages'
  contents one after the other, the issued token is derived from the API key.
\<close>

fun message_content :: "pyval \<Rightarrow> string" where
  "message_content (PDict d) = (case dict_get d ''content'' of Some (PStr s) \<Rightarrow> s | _ \<Rightarrow> [])"
| "message_content _ = []"

definition example_get_api_params :: "pydict \<Rightarrow> error + (pydict \<times> pydict)" where
  "example_get_api_params params =
     (case dict_pop params ''project_id'' PNone of
        (project_id, params') \<Rightarrow>
          if project_id = PNone then Inl (WatsonXAIError 401 ''Error: Watsonx project_id not set.'')
          else Inr ([(KStr ''project_id'', project_id)], params'))"

definition example_env :: watsonx_env where
  "example_env =
     \<lparr>get_secret_str = (\<lambda>name. None),
      get_api_params = example_get_api_params,
      convert_watsonx_messages_to_prompt =
        (\<lambda>model messages provider. Inr (concat (map message_content messages))),
      generate_watsonx_token =
        (\<lambda>api_key token. case api_key of
                            None \<Rightarrow> Inl (WatsonXAIError 401 ''Error: API key not set.'')
                          | Some k \<Rightarrow> Inr (''iam-'' @ k)),
      py_str = (\<lambda>v. case v of PNone \<Rightarrow> ''None'' | PBool True \<Rightarrow> ''True''
                              | PBool False \<Rightarrow> ''False'' | _ \<Rightarrow> []),
      WATSONX_DEFAULT_API_VERSION = ''2024-03-13'',
      TEXT_GENERATION = ''/ml/v1/text/generation'',
      TEXT_GENERATION_STREAM = ''/ml/v1/text/generation_stream'',
      DEPLOYMENT_TEXT_GENERATION =
        (\<lambda>deployment_id. ''/ml/v1/deployments/'' @ deployment_id @ ''/text/generation''),
      DEPLOYMENT_TEXT_GENERATION_STREAM =
        (\<lambda>deployment_id. ''/ml/v1/deployments/'' @ deployment_id @ ''/text/generation_stream'')\<rparr>"

definition example_passthrough_env :: passthrough_env where
  "example_passthrough_env =
     \<lparr>url_path = (\<lambda>endpoint. Inr endpoint),
      copy_with_path = (\<lambda>base p. Inr (base @ p)),
      get_credentials = (\<lambda>provider region. None),
      secret_str = (\<lambda>name. None)\<rparr>"

text \<open>
  Toy primitives that meet the contracts: a str is written code point by code point in
  unary, each closed by a zero byte; the box prefixes the key; the base64 text of a byte
  string is the str of its byte values.
\<close>

fun unary_decode :: "nat \<Rightarrow> bytes \<Rightarrow> unicode" where
  "unary_decode n [] = []"
| "unary_decode n (b # bs) =
     (if b = 0 then n # unary_decode 0 bs else unary_decode (Suc n) bs)"

definition example_crypto :: crypto where
  "example_crypto =
     \<lparr>sha256 = (\<lambda>b. take 32 (b @ replicate 32 0)),
      utf8_bytes = (\<lambda>s. concat (map (\<lambda>cp. replicate cp 1 @ [0]) s)),
      utf8_decode = (\<lambda>b. Inr (unary_decode 0 b)),
      box_encrypt = (\<lambda>key nonce m. key @ m),
      box_decrypt = (\<lambda>key c. if take (length key) c = key then Inr (drop (length key) c)
                               else Inl CryptoError),
      b64encode = map unat,
      b64decode = (\<lambda>s. Inr (map of_nat s))\<rparr>"

section \<open>Properties of the parameter mapping\<close>

lemma map_param_tables:
  "map_param (k, v) (op, eb) =
     (case top_level_field k of
        Some f \<Rightarrow> (AList.update (KStr f) v op, eb)
      | None \<Rightarrow>
          (case extra_body_field k of
             Some f \<Rightarrow> (op, AList.update (KStr f) v eb)
           | None \<Rightarrow> (op, eb)))"
  by (simp add: top_level_field_def extra_body_field_def)

lemma fold_map_param_split:
  "fold map_param nd (op, eb) =
     (fst (fold map_param nd (op, [])), fold (\<lambda>(f, v) acc. AList.update f v acc) (extra_body_entries nd) eb)"
proof (induction nd arbitrary: op eb)
  case Nil
  show ?case by simp
next
  case (Cons p nd)
  obtain k v where p: "p = (k, v)" by (cases p)
  show ?case
  proof (cases "top_level_field k")
    case None
    show ?thesis
    proof (cases "extra_body_field k")
      case None
      with \<open>top_level_field k = None\<close> show ?thesis
        unfolding p using Cons.IH [of op eb]
        by (simp only: fold_simps map_param_tables option.case extra_body_entries.simps o_apply)
    next
      case (Some f)
      with None show ?thesis
        unfolding p using Cons.IH [of op "AList.update (KStr f) v eb"] Cons.IH [of op "AList.update (KStr f) v []"]
        by (simp only: fold_simps map_param_tables option.case extra_body_entries.simps o_apply prod.case fst_conv)
    qed
  next
    case (Some f)
    then have "extra_body_field k = None"
      by (auto simp: top_level_field_def extra_body_field_def split: if_splits)
    with Some show ?thesis
      unfolding p using Cons.IH [of "AList.update (KStr f) v op" eb] Cons.IH [of "AList.update (KStr f) v op" "[]"]
      by (simp only: fold_simps map_param_tables option.case extra_body_entries.simps o_apply prod.case fst_conv)
  qed
qed

lemma fold_update_fresh:
  "distinct (map fst es) \<Longrightarrow> fst ` set es \<inter> fst ` set eb = {} \<Longrightarrow>
   fold (\<lambda>(f, v) acc. AList.update f v acc) es eb = eb @ es"
proof (induction es arbitrary: eb)
  case Nil
  show ?case by simp
next
  case (Cons e es)
  obtain f v where e: "e = (f, v)" by (cases e)
  have fresh: "f \<notin> fst ` set eb" using Cons.prems(2) by (auto simp: e)
  have upd: "AList.update f v eb = eb @ [(f, v)]"
    using fresh by (induction eb) auto
  have "fst ` set es \<inter> fst ` set (eb @ [(f, v)]) = {}"
    using Cons.prems by (auto simp: e)
  with Cons.IH [of "eb @ [(f, v)]"] Cons.prems(1) show ?case
    by (simp add: e upd)
qed

lemma extra_body_field_inj:
  "extra_body_field k = Some f \<Longrightarrow> extra_body_field k' = Some f \<Longrightarrow> k = k'"
  by (auto simp: extra_body_field_def split: if_splits)

lemma extra_body_entries_keys:
  "x \<in> fst ` set (extra_body_entries nd) \<Longrightarrow>
   \<exists>k \<in> fst ` set nd. \<exists>f. x = KStr f \<and> extra_body_field k = Some f"
  by (induction nd rule: extra_body_entries.induct) (auto split: option.splits)

lemma distinct_extra_body_entries:
  "distinct (map fst nd) \<Longrightarrow> distinct (map fst (extra_body_entries nd))"
proof (induction nd rule: extra_body_entries.induct)
  case 1
  show ?case by simp
next
  case (2 k v ps)
  show ?case
  proof (cases "extra_body_field k")
    case None
    with 2 show ?thesis by simp
  next
    case (Some f)
    have "KStr f \<notin> fst ` set (extra_body_entries ps)"
    proof
      assume "KStr f \<in> fst ` set (extra_body_entries ps)"
      then obtain k' where "k' \<in> fst ` set ps" "extra_body_field k' = Some f"
        using extra_body_entries_keys [of "KStr f" ps] by auto
      with Some have "k = k'" using extra_body_field_inj by blast
      with \<open>k' \<in> fst ` set ps\<close> 2(3) show False by auto
    qed
    with 2 Some show ?thesis by simp
  qed
qed

lemma snd_fold_map_param:
  assumes "distinct (map fst nd)"
  shows "snd (fold map_param nd (op, [])) = extra_body_entries nd"
proof -
  have "snd (fold map_param nd (op, [])) =
        fold (\<lambda>(f, v) acc. AList.update f v acc) (extra_body_entries nd) []"
    by (subst fold_map_param_split) simp
  also have "\<dots> = [] @ extra_body_entries nd"
    by (rule fold_update_fresh) (simp_all add: distinct_extra_body_entries assms)
  finally show ?thesis by simp
qed

lemma top_level_field_inj:
  "top_level_field k = Some f \<Longrightarrow> top_level_field k' = Some f \<Longrightarrow> k = k'"
  by (auto simp: top_level_field_def split: if_splits)

lemma fst_fold_map_param_other:
  "\<forall>k \<in> fst ` set nd. top_level_field k \<noteq> Some f \<Longrightarrow>
   dict_get (fst (fold map_param nd (op, eb))) f = dict_get op f"
proof (induction nd arbitrary: op eb)
  case Nil
  show ?case by simp
next
  case (Cons p nd)
  obtain k v where p: "p = (k, v)" by (cases p)
  have k: "top_level_field k \<noteq> Some f" and rest: "\<forall>k \<in> fst ` set nd. top_level_field k \<noteq> Some f"
    using Cons.prems by (auto simp: p)
  obtain op' eb' where step: "map_param (k, v) (op, eb) = (op', eb')"
    by (cases "map_param (k, v) (op, eb)")
  have "dict_get op' f = dict_get op f"
    using step k unfolding map_param_tables
    by (auto simp: update_conv' split: option.splits)
  with Cons.IH [OF rest, of op' eb'] show ?case
    by (simp only: p fold_simps step)
qed

lemma fst_fold_map_param_top:
  "distinct (map fst nd) \<Longrightarrow> map_of nd k = Some v \<Longrightarrow> top_level_field k = Some f \<Longrightarrow>
   dict_get (fst (fold map_param nd (op, eb))) f = Some v"
proof (induction nd arbitrary: op eb)
  case Nil
  then show ?case by simp
next
  case (Cons p nd)
  obtain k' v' where p: "p = (k', v')" by (cases p)
  obtain op' eb' where step: "map_param (k', v') (op, eb) = (op', eb')"
    by (cases "map_param (k', v') (op, eb)")
  show ?case
  proof (cases "k' = k")
    case True
    then have v: "v' = v" using Cons.prems(2) by (simp add: p)
    have notin: "k \<notin> fst ` set nd" using Cons.prems(1) True by (auto simp: p)
    have "\<forall>k'' \<in> fst ` set nd. top_level_field k'' \<noteq> Some f"
      using notin top_level_field_inj [OF Cons.prems(3)] by blast
    then have "dict_get (fst (fold map_param nd (op', eb'))) f = dict_get op' f"
      by (rule fst_fold_map_param_other)
    moreover have "dict_get op' f = Some v"
      using step Cons.prems(3) True v unfolding map_param_tables
      by (auto simp: update_conv')
    ultimately show ?thesis by (simp only: p fold_simps step)
  next
    case False
    then have "map_of nd k = Some v" using Cons.prems(2) by (simp add: p)
    moreover have "distinct (map fst nd)" using Cons.prems(1) by simp
    ultimately have "dict_get (fst (fold map_param nd (op', eb'))) f = Some v"
      using Cons.IH Cons.prems(3) by blast
    then show ?thesis by (simp only: p fold_simps step)
  qed
qed

lemma map_openai_params_get:
  "f \<noteq> ''extra_body'' \<Longrightarrow>
   dict_get (map_openai_params nd op m dp) f = dict_get (fst (fold map_param nd (op, []))) f"
  by (simp add: map_openai_params_def update_conv' split: prod.splits)

text \<open>
  C8. Whenever \<^verbatim>\<open>frequency_penalty\<close> is among the parameters passed, with value \<open>v\<close>, the
  mapped parameters hold \<^verbatim>\<open>repetition_penalty\<close> with the very same value \<open>v\<close>: the value
  is copied, never converted or rescaled, whatever the other parameters and whatever
  \<^verbatim>\<open>optional_params\<close> held before.
\<close>

theorem frequency_penalty_copied:
  assumes "wf_dict non_default_params"
    and "dict_get non_default_params ''frequency_penalty'' = Some v"
  shows "dict_get (map_openai_params non_default_params optional_params model drop_params)
           ''repetition_penalty'' = Some v"
proof -
  have "top_level_field (KStr ''frequency_penalty'') = Some ''repetition_penalty''"
    by (simp add: top_level_field_def)
  with assms have "dict_get (fst (fold map_param non_default_params (optional_params, [])))
      ''repetition_penalty'' = Some v"
    unfolding wf_dict_def by (rule fst_fold_map_param_top)
  then show ?thesis by (simp add: map_openai_params_get)
qed

theorem frequency_penalty_copied_witness:
  "wf_dict [(KStr ''temperature'', PFloat 1 (-1)), (KStr ''frequency_penalty'', PFloat 3 (-1))] \<and>
   dict_get [(KStr ''temperature'', PFloat 1 (-1)), (KStr ''frequency_penalty'', PFloat 3 (-1))]
     ''frequency_penalty'' = Some (PFloat 3 (-1)) \<and>
   dict_get (map_openai_params
       [(KStr ''temperature'', PFloat 1 (-1)), (KStr ''frequency_penalty'', PFloat 3 (-1))]
       [(KStr ''repetition_penalty'', PInt 7)] ''ibm/granite-13b'' False)
     ''repetition_penalty'' = Some (PFloat 3 (-1))"
proof -
  have w: "wf_dict [(KStr ''temperature'', PFloat 1 (-1)), (KStr ''frequency_penalty'', PFloat 3 (-1))]"
    by (simp add: wf_dict_def)
  have g: "dict_get [(KStr ''temperature'', PFloat 1 (-1)), (KStr ''frequency_penalty'', PFloat 3 (-1))]
     ''frequency_penalty'' = Some (PFloat 3 (-1))"
    by simp
  from w g frequency_penalty_copied [OF w g] show ?thesis by blast
qed

lemma extra_body_entries_Nil:
  "extra_body_entries nd = [] \<longleftrightarrow> (\<forall>k \<in> fst ` set nd. extra_body_field k = None)"
  by (induction nd rule: extra_body_entries.induct) (auto split: option.splits)

lemma map_of_extra_body_entries:
  "distinct (map fst nd) \<Longrightarrow> extra_body_field k = Some f \<Longrightarrow>
   dict_get (extra_body_entries nd) f = map_of nd k"
proof (induction nd rule: extra_body_entries.induct)
  case 1
  show ?case by simp
next
  case (2 k' v ps)
  show ?case
  proof (cases "k' = k")
    case True
    have "k \<notin> fst ` set ps" using 2(3) True by auto
    then show ?thesis using True 2(4) by simp
  next
    case False
    then have "extra_body_field k' \<noteq> Some f"
      using extra_body_field_inj [OF _ 2(4)] by blast
    with False 2 show ?thesis
      by (cases "extra_body_field k'") auto
  qed
qed

lemma extra_field_not_top:
  "extra_body_field k = Some f \<Longrightarrow> top_level_field k' \<noteq> Some f"
  by (auto simp: top_level_field_def extra_body_field_def split: if_splits)

lemma extra_field_not_extra_body:
  "extra_body_field k = Some f \<Longrightarrow> f \<noteq> ''extra_body''"
  by (auto simp: extra_body_field_def split: if_splits)

text \<open>
  C3, as the code has it. The parameters whose destination is the extra body are
  collected, each under its field name and with its value, into one object; when that
  object is not empty it is what the mapped parameters hold under the one key
  \<^verbatim>\<open>extra_body\<close>, and none of its fields is written at top level. When no key passed
  has an extra-body destination the function attaches nothing: the result has no
  \<^verbatim>\<open>extra_body\<close> at all if \<^verbatim>\<open>optional_params\<close> came without one, and otherwise keeps
  the entry \<^verbatim>\<open>optional_params\<close> came with.
\<close>

theorem extra_body_single_object:
  assumes "wf_dict non_default_params"
  shows
    "(extra_body_entries non_default_params \<noteq> [] \<longrightarrow>
        dict_get (map_openai_params non_default_params optional_params model drop_params)
          ''extra_body'' = Some (PDict (extra_body_entries non_default_params)))
     \<and> (extra_body_entries non_default_params = [] \<longrightarrow>
        dict_get optional_params ''extra_body'' = None \<longrightarrow>
        dict_get (map_openai_params non_default_params optional_params model drop_params)
          ''extra_body'' = None)
     \<and> (extra_body_entries non_default_params = [] \<longrightarrow>
        dict_get (map_openai_params non_default_params optional_params model drop_params)
          ''extra_body'' = dict_get optional_params ''extra_body'')
     \<and> (extra_body_entries non_default_params = [] \<longleftrightarrow>
          (\<forall>k \<in> fst ` set non_default_params. extra_body_field k = None))
     \<and> (\<forall>k f. extra_body_field k = Some f \<longrightarrow>
          dict_get (extra_body_entries non_default_params) f = map_of non_default_params k)
     \<and> (\<forall>x \<in> fst ` set (extra_body_entries non_default_params).
          \<exists>k \<in> fst ` set non_default_params. \<exists>f. x = KStr f \<and> extra_body_field k = Some f)
     \<and> (\<forall>k f. extra_body_field k = Some f \<longrightarrow>
          dict_get (map_openai_params non_default_params optional_params model drop_params) f
            = dict_get optional_params f)"
proof -
  have d: "distinct (map fst non_default_params)"
    using assms by (simp add: wf_dict_def)
  obtain op' eb where fold: "fold map_param non_default_params (optional_params, []) = (op', eb)"
    by (cases "fold map_param non_default_params (optional_params, [])")
  have eb: "eb = extra_body_entries non_default_params"
    using snd_fold_map_param [OF d, of optional_params] fold by simp
  have no_top: "\<forall>k \<in> fst ` set non_default_params. top_level_field k \<noteq> Some ''extra_body''"
    by (auto simp: top_level_field_def split: if_splits)
  have op': "dict_get op' ''extra_body'' = dict_get optional_params ''extra_body''"
    using fst_fold_map_param_other [OF no_top, of optional_params "[]"] fold by simp
  have c1: "extra_body_entries non_default_params \<noteq> [] \<longrightarrow>
        dict_get (map_openai_params non_default_params optional_params model drop_params)
          ''extra_body'' = Some (PDict (extra_body_entries non_default_params))"
    by (simp add: map_openai_params_def fold eb [symmetric] update_conv')
  have c2: "extra_body_entries non_default_params = [] \<longrightarrow>
        dict_get (map_openai_params non_default_params optional_params model drop_params)
          ''extra_body'' = dict_get optional_params ''extra_body''"
    by (simp add: map_openai_params_def fold eb [symmetric] op')
  have c3: "extra_body_entries non_default_params = [] \<longleftrightarrow>
          (\<forall>k \<in> fst ` set non_default_params. extra_body_field k = None)"
    by (rule extra_body_entries_Nil)
  have c4: "\<forall>k f. extra_body_field k = Some f \<longrightarrow>
          dict_get (extra_body_entries non_default_params) f = map_of non_default_params k"
    using map_of_extra_body_entries [OF d] by blast
  have c5: "\<forall>x \<in> fst ` set (extra_body_entries non_default_params).
          \<exists>k \<in> fst ` set non_default_params. \<exists>f. x = KStr f \<and> extra_body_field k = Some f"
    using extra_body_entries_keys by blast
  have c6: "\<forall>k f. extra_body_field k = Some f \<longrightarrow>
          dict_get (map_openai_params non_default_params optional_params model drop_params) f
            = dict_get optional_params f"
  proof (intro allI impI)
    fix k f
    assume kf: "extra_body_field k = Some f"
    have "\<forall>k' \<in> fst ` set non_default_params. top_level_field k' \<noteq> Some f"
      using extra_field_not_top [OF kf] by blast
    then have "dict_get (fst (fold map_param non_default_params (optional_params, []))) f
        = dict_get optional_params f"
      by (rule fst_fold_map_param_other)
    then show "dict_get (map_openai_params non_default_params optional_params model drop_params) f
            = dict_get optional_params f"
      using extra_field_not_extra_body [OF kf] by (simp add: map_openai_params_get)
  qed
  from c2 have c2': "extra_body_entries non_default_params = [] \<longrightarrow>
        dict_get optional_params ''extra_body'' = None \<longrightarrow>
        dict_get (map_openai_params non_default_params optional_params model drop_params)
          ''extra_body'' = None"
    by simp
  from c1 c2' c2 c3 c4 c5 c6 show ?thesis by blast
qed

text \<open>
  No key passed maps to an extra-body field, and \<^verbatim>\<open>optional_params\<close> comes with an empty
  \<^verbatim>\<open>extra_body\<close>: the result holds that empty object.
\<close>

theorem extra_body_kept_counterexample:
  "map_openai_params [(KStr ''temperature'', PFloat 1 (-1))] [(KStr ''extra_body'', PDict [])]
      ''ibm/granite-13b'' False
     = [(KStr ''extra_body'', PDict []), (KStr ''temperature'', PFloat 1 (-1))]
   \<and> dict_get (map_openai_params [(KStr ''temperature'', PFloat 1 (-1))]
        [(KStr ''extra_body'', PDict [])] ''ibm/granite-13b'' False) ''extra_body''
     = Some (PDict [])"
  by (simp add: map_openai_params_def)

theorem extra_body_single_object_witness:
  "wf_dict [(KStr ''temperature'', PFloat 1 (-1)), (KStr ''top_k'', PInt 3), (KStr ''min_tokens'', PInt 1)] \<and>
   dict_get (map_openai_params
       [(KStr ''temperature'', PFloat 1 (-1)), (KStr ''top_k'', PInt 3), (KStr ''min_tokens'', PInt 1)]
       [] ''ibm/granite-13b'' False) ''extra_body''
     = Some (PDict [(KStr ''top_k'', PInt 3), (KStr ''min_new_tokens'', PInt 1)]) \<and>
   wf_dict [(KStr ''temperature'', PFloat 1 (-1)), (KStr ''max_tokens'', PInt 20)] \<and>
   dict_get (map_openai_params [(KStr ''temperature'', PFloat 1 (-1)), (KStr ''max_tokens'', PInt 20)]
       [] ''ibm/granite-13b'' False) ''extra_body'' = None"
proof -
  have w1: "wf_dict [(KStr ''temperature'', PFloat 1 (-1)), (KStr ''top_k'', PInt 3), (KStr ''min_tokens'', PInt 1)]"
    by (simp add: wf_dict_def)
  have w2: "wf_dict [(KStr ''temperature'', PFloat 1 (-1)), (KStr ''max_tokens'', PInt 20)]"
    by (simp add: wf_dict_def)
  have e1: "extra_body_entries
      [(KStr ''temperature'', PFloat 1 (-1)), (KStr ''top_k'', PInt 3), (KStr ''min_tokens'', PInt 1)]
      = [(KStr ''top_k'', PInt 3), (KStr ''min_new_tokens'', PInt 1)]"
    by (simp add: extra_body_field_def)
  have e2: "extra_body_entries [(KStr ''temperature'', PFloat 1 (-1)), (KStr ''max_tokens'', PInt 20)] = []"
    by (simp add: extra_body_field_def)
  from extra_body_single_object [OF w1, of "[]" "''ibm/granite-13b''" False]
       extra_body_single_object [OF w2, of "[]" "''ibm/granite-13b''" False]
       w1 w2 show ?thesis
    unfolding e1 e2 by simp
qed

section \<open>Properties of the pass-through routes\<close>

text \<open>
  C7. Every call prepared by the handler the openai and azure routes share, for a
  resolved token \<open>t\<close>, carries the custom headers \<^verbatim>\<open>authorization: Bearer t\<close> and
  \<^verbatim>\<open>api-key: t\<close>; the handler prepares a call whenever the URL of the target can be
  built, and the two routes pass the credential they resolved. For the path
  \<^verbatim>\<open>/v1/chat/completions\<close> and the token \<^verbatim>\<open>abc\<close> the headers are
  \<^verbatim>\<open>authorization: Bearer abc\<close> and \<^verbatim>\<open>api-key: abc\<close>.
\<close>

theorem dual_header_strategy:
  "(\<forall>call. base_openai_pass_through_handler P endpoint request base_target_url t = Inr call \<longrightarrow>
       map_of (pt_custom_headers call) ''authorization'' = Some (''Bearer '' @ t) \<and>
       map_of (pt_custom_headers call) ''api-key'' = Some t)
   \<and> (\<forall>url. updated_url P base_target_url endpoint = Inr url \<longrightarrow>
       (\<exists>call. base_openai_pass_through_handler P endpoint request base_target_url t = Inr call))
   \<and> (\<forall>call. get_credentials P ''openai'' None = Some t \<longrightarrow>
       openai_proxy_route P endpoint request = Inr call \<longrightarrow>
       map_of (pt_custom_headers call) ''authorization'' = Some (''Bearer '' @ t) \<and>
       map_of (pt_custom_headers call) ''api-key'' = Some t)
   \<and> (\<forall>call. get_credentials P ''azure'' None = Some t \<longrightarrow>
       azure_proxy_route P endpoint request = Inr call \<longrightarrow>
       map_of (pt_custom_headers call) ''authorization'' = Some (''Bearer '' @ t) \<and>
       map_of (pt_custom_headers call) ''api-key'' = Some t)"
proof -
  have handler: "map_of (pt_custom_headers call) ''authorization'' = Some (''Bearer '' @ t') \<and>
       map_of (pt_custom_headers call) ''api-key'' = Some t'"
    if "base_openai_pass_through_handler P endpoint request b t' = Inr call" for call b t'
    using that by (auto simp: base_openai_pass_through_handler_def split: sum.splits)
  have returns: "\<exists>call. base_openai_pass_through_handler P endpoint request base_target_url t = Inr call"
    if "updated_url P base_target_url endpoint = Inr url" for url
    using that by (simp add: base_openai_pass_through_handler_def)
  have openai: "map_of (pt_custom_headers call) ''authorization'' = Some (''Bearer '' @ t) \<and>
       map_of (pt_custom_headers call) ''api-key'' = Some t"
    if "get_credentials P ''openai'' None = Some t" "openai_proxy_route P endpoint request = Inr call"
    for call
    using that handler by (simp add: openai_proxy_route_def)
  have azure: "map_of (pt_custom_headers call) ''authorization'' = Some (''Bearer '' @ t) \<and>
       map_of (pt_custom_headers call) ''api-key'' = Some t"
    if "get_credentials P ''azure'' None = Some t" "azure_proxy_route P endpoint request = Inr call"
    for call
    using that handler by (auto simp: azure_proxy_route_def split: option.splits)
  from handler returns openai azure show ?thesis by blast
qed

theorem dual_header_strategy_witness:
  "base_openai_pass_through_handler example_passthrough_env ''/v1/chat/completions''
      \<lparr>req_method = ''POST'', req_url = ''http://0.0.0.0:4000/openai/v1/chat/completions'',
       req_query_params = [], req_json = Inr (PDict [(KStr ''model'', PStr ''gpt-4o'')])\<rparr>
      ''https://api.openai.com'' ''abc''
    = Inr \<lparr>pt_endpoint = ''/v1/chat/completions'',
           pt_target = ''https://api.openai.com/v1/chat/completions'',
           pt_custom_headers = [(''authorization'', ''Bearer abc''), (''api-key'', ''abc'')],
           pt_forward_headers = False, pt_stream = False, pt_query_params = Some []\<rparr>
   \<and> map_of [(''authorization'', ''Bearer abc''), (''api-key'', ''abc'')] ''authorization''
        = Some ''Bearer abc''
   \<and> map_of [(''authorization'', ''Bearer abc''), (''api-key'', ''abc'')] ''api-key'' = Some ''abc''"
proof -
  let ?req = "\<lparr>req_method = ''POST'', req_url = ''http://0.0.0.0:4000/openai/v1/chat/completions'',
       req_query_params = [], req_json = Inr (PDict [(KStr ''model'', PStr ''gpt-4o'')])\<rparr>"
  have run: "base_openai_pass_through_handler example_passthrough_env ''/v1/chat/completions''
      ?req ''https://api.openai.com'' ''abc''
    = Inr \<lparr>pt_endpoint = ''/v1/chat/completions'',
           pt_target = ''https://api.openai.com/v1/chat/completions'',
           pt_custom_headers = [(''authorization'', ''Bearer abc''), (''api-key'', ''abc'')],
           pt_forward_headers = False, pt_stream = False, pt_query_params = Some []\<rparr>"
    by (simp add: base_openai_pass_through_handler_def updated_url_def encoded_endpoint_def
        example_passthrough_env_def startswith_def)
  from dual_header_strategy [of example_passthrough_env "''/v1/chat/completions''" ?req
      "''https://api.openai.com''" "''abc''"] run
  show ?thesis by simp
qed

text \<open>
  C2, as the code has it. In the anthropic and the assemblyai route, once the target URL
  is built: a POST request whose body parses to a JSON object is streaming exactly when
  the object's \<^verbatim>\<open>stream\<close> field is truthy, whatever the URL; a request of any other
  method is not streaming and its body is not read, so an absent or malformed body does
  not matter there; and a POST request whose body cannot be parsed makes the route raise
  the parser's exception: the body is read with no handler around it.
\<close>

theorem body_stream_detection:
  assumes "updated_url P ''https://api.anthropic.com'' endpoint = Inr url"
    and "updated_url P (if contains ''eu.assemblyai'' (req_url request)
                        then ''https://api.eu.assemblyai.com''
                        else ''https://api.assemblyai.com'') endpoint = Inr url'"
  shows
    "(req_method request = ''POST'' \<longrightarrow>
        (\<forall>body. req_json request = Inr (PDict body) \<longrightarrow>
           (\<exists>call. anthropic_proxy_route P endpoint request = Inr call \<and>
                    pt_stream call = truthy (py_get body ''stream'')) \<and>
           (\<exists>call. assemblyai_proxy_route P endpoint request = Inr call \<and>
                    pt_stream call = truthy (py_get body ''stream''))))
     \<and> (req_method request \<noteq> ''POST'' \<longrightarrow>
           (\<exists>call. anthropic_proxy_route P endpoint request = Inr call \<and> \<not> pt_stream call) \<and>
           (\<exists>call. assemblyai_proxy_route P endpoint request = Inr call \<and> \<not> pt_stream call))
     \<and> (req_method request = ''POST'' \<longrightarrow>
        (\<forall>e. req_json request = Inl e \<longrightarrow>
           anthropic_proxy_route P endpoint request = Inl e \<and>
           assemblyai_proxy_route P endpoint request = Inl e))"
proof -
  have a: "anthropic_proxy_route P endpoint request =
     (case body_stream_flag request of
        Inl e \<Rightarrow> Inl e
      | Inr s \<Rightarrow> Inr \<lparr>pt_endpoint = endpoint, pt_target = url,
                     pt_custom_headers =
                       [(''x-api-key'', format_opt (get_credentials P ''anthropic'' None))],
                     pt_forward_headers = True, pt_stream = s, pt_query_params = None\<rparr>)"
    using assms(1) by (simp add: anthropic_proxy_route_def)
  have b: "assemblyai_proxy_route P endpoint request =
     (case body_stream_flag request of
        Inl e \<Rightarrow> Inl e
      | Inr s \<Rightarrow> Inr \<lparr>pt_endpoint = endpoint, pt_target = url',
                     pt_custom_headers =
                       [(''Authorization'', format_opt (get_credentials P ''assemblyai''
                          (if contains ''eu.assemblyai'' (req_url request)
                           then Some ''eu'' else None)))],
                     pt_forward_headers = False, pt_stream = s, pt_query_params = None\<rparr>)"
    using assms(2) by (simp add: assemblyai_proxy_route_def Let_def)
  show ?thesis
    unfolding a b by (simp add: body_stream_flag_def)
qed

theorem body_stream_detection_witness:
  "(\<exists>call. anthropic_proxy_route example_passthrough_env ''/v1/messages''
        \<lparr>req_method = ''POST'', req_url = ''http://0.0.0.0:4000/anthropic/v1/messages'',
         req_query_params = [], req_json = Inr (PDict [(KStr ''stream'', PBool True)])\<rparr> = Inr call
      \<and> pt_target call = ''https://api.anthropic.com/v1/messages'' \<and> pt_stream call)
   \<and> (\<exists>call. assemblyai_proxy_route example_passthrough_env ''/v1/messages''
        \<lparr>req_method = ''GET'', req_url = ''http://0.0.0.0:4000/anthropic/v1/messages'',
         req_query_params = [], req_json = Inl JSONDecodeError\<rparr> = Inr call
      \<and> \<not> pt_stream call)"
proof -
  let ?post = "\<lparr>req_method = ''POST'', req_url = ''http://0.0.0.0:4000/anthropic/v1/messages'',
         req_query_params = [], req_json = Inr (PDict [(KStr ''stream'', PBool True)])\<rparr>"
  let ?get = "\<lparr>req_method = ''GET'', req_url = ''http://0.0.0.0:4000/anthropic/v1/messages'',
         req_query_params = [], req_json = Inl JSONDecodeError\<rparr>"
  have u1: "updated_url example_passthrough_env ''https://api.anthropic.com'' ''/v1/messages''
      = Inr ''https://api.anthropic.com/v1/messages''"
    by (simp add: updated_url_def encoded_endpoint_def example_passthrough_env_def startswith_def)
  have u2: "updated_url example_passthrough_env
      (if contains ''eu.assemblyai'' (req_url r) then ''https://api.eu.assemblyai.com''
       else ''https://api.assemblyai.com'') ''/v1/messages''
      = Inr ((if contains ''eu.assemblyai'' (req_url r) then ''https://api.eu.assemblyai.com''
       else ''https://api.assemblyai.com'') @ ''/v1/messages'')" for r
    by (simp add: updated_url_def encoded_endpoint_def example_passthrough_env_def startswith_def)
  have t: "pt_target call = ''https://api.anthropic.com/v1/messages''"
    if "anthropic_proxy_route example_passthrough_env ''/v1/messages'' ?post = Inr call" for call
    using that u1 by (auto simp: anthropic_proxy_route_def split: sum.splits)
  from body_stream_detection [OF u1 u2, of ?post] body_stream_detection [OF u1 u2, of ?get] t
  show ?thesis by (auto simp: py_get_def)
qed

text \<open>
  A POST request with a body that is not JSON: both routes raise, where C2 expects them
  to go on with a call that is not streaming.
\<close>

theorem body_inspection_raises_counterexample:
  "anthropic_proxy_route example_passthrough_env ''/v1/messages''
      \<lparr>req_method = ''POST'', req_url = ''http://0.0.0.0:4000/anthropic/v1/messages'',
       req_query_params = [], req_json = Inl JSONDecodeError\<rparr> = Inl JSONDecodeError
   \<and> assemblyai_proxy_route example_passthrough_env ''/v2/transcript''
      \<lparr>req_method = ''POST'', req_url = ''http://0.0.0.0:4000/assemblyai/v2/transcript'',
       req_query_params = [], req_json = Inl JSONDecodeError\<rparr> = Inl JSONDecodeError"
  by (simp add: anthropic_proxy_route_def assemblyai_proxy_route_def updated_url_def
      encoded_endpoint_def example_passthrough_env_def startswith_def body_stream_flag_def)


section \<open>Properties of the adapter's headers and URL\<close>

text \<open>
  C6. The headers \<^verbatim>\<open>validate_environment\<close> returns are always \<^verbatim>\<open>Content-Type:
  application/json\<close>, \<^verbatim>\<open>Accept: application/json\<close> and an \<^verbatim>\<open>Authorization: Bearer\<close>
  header: with the explicit token of \<^verbatim>\<open>optional_params\<close> as it is when there is one,
  else with the token the issuing collaborator returns; when that collaborator fails the
  call fails with its error, so no headers without \<^verbatim>\<open>Authorization\<close> are ever
  returned. The headers the caller supplied have no influence on the result.
\<close>

theorem validate_environment_headers:
  "(truthy (py_get optional_params ''token'') \<longrightarrow>
      validate_environment E headers model messages optional_params api_key =
        Inr [(''Content-Type'', ''application/json''), (''Accept'', ''application/json''),
             (''Authorization'', ''Bearer '' @ fstring E (py_get optional_params ''token''))])
   \<and> (\<forall>s. py_get optional_params ''token'' = PStr s \<longrightarrow> s \<noteq> [] \<longrightarrow>
      validate_environment E headers model messages optional_params api_key =
        Inr [(''Content-Type'', ''application/json''), (''Accept'', ''application/json''),
             (''Authorization'', ''Bearer '' @ s)])
   \<and> (\<not> truthy (py_get optional_params ''token'') \<longrightarrow>
      validate_environment E headers model messages optional_params api_key =
        (case generate_watsonx_token E api_key (py_get optional_params ''token'') of
           Inl e \<Rightarrow> Inl e
         | Inr t \<Rightarrow>
             Inr [(''Content-Type'', ''application/json''), (''Accept'', ''application/json''),
                  (''Authorization'', ''Bearer '' @ t)]))
   \<and> (\<forall>h. validate_environment E headers model messages optional_params api_key = Inr h \<longrightarrow>
        map_of h ''Content-Type'' = Some ''application/json'' \<and>
        map_of h ''Accept'' = Some ''application/json'' \<and>
        (\<exists>t. map_of h ''Authorization'' = Some (''Bearer '' @ t)))
   \<and> validate_environment E headers model messages optional_params api_key =
       validate_environment E [] model messages optional_params api_key"
  by (auto simp: validate_environment_def Let_def fstring_def split: sum.splits)

theorem validate_environment_headers_witness:
  "validate_environment example_env
      [(''Authorization'', ''Basic dXNlcg==''), (''Accept'', ''text/plain''), (''X-Trace'', ''1'')]
      ''ibm/granite-13b'' [] [(KStr ''token'', PStr ''abc'')] None
     = Inr [(''Content-Type'', ''application/json''), (''Accept'', ''application/json''),
            (''Authorization'', ''Bearer abc'')]
   \<and> validate_environment example_env [(''Authorization'', ''Basic dXNlcg=='')]
      ''ibm/granite-13b'' [] [] (Some ''key1'')
     = Inr [(''Content-Type'', ''application/json''), (''Accept'', ''application/json''),
            (''Authorization'', ''Bearer iam-key1'')]
   \<and> validate_environment example_env [] ''ibm/granite-13b'' [] [] None
     = Inl (WatsonXAIError 401 ''Error: API key not set.'')"
  using validate_environment_headers [of "[(KStr ''token'', PStr ''abc'')]" example_env
      "[(''Authorization'', ''Basic dXNlcg==''), (''Accept'', ''text/plain''), (''X-Trace'', ''1'')]"
      "''ibm/granite-13b''" "[]" None]
    validate_environment_headers [of "[]" example_env "[(''Authorization'', ''Basic dXNlcg=='')]"
      "''ibm/granite-13b''" "[]" "Some ''key1''"]
    validate_environment_headers [of "[]" example_env "[]" "''ibm/granite-13b''" "[]" None]
  by (simp add: py_get_def fstring_def example_env_def)

lemma py_split_not_Nil: "py_split c s \<noteq> []"
  by (induction s) (auto split: list.splits)

lemma py_split_prefix:
  "c \<notin> set a \<Longrightarrow> py_split c (a @ c # rest) = a # py_split c rest"
  by (induction a) auto

lemma py_join_Cons: "py_join sep ((x # w) # ws) = x # py_join sep (w # ws)"
  by (cases ws) auto

lemma py_join_split: "py_join [c] (py_split c s) = s"
proof (induction s)
  case Nil
  show ?case by simp
next
  case (Cons x xs)
  show ?case
  proof (cases "x = c")
    case True
    then show ?thesis using Cons py_split_not_Nil [of c xs]
      by (cases "py_split c xs") auto
  next
    case False
    obtain w ws where s: "py_split c xs = w # ws"
      using py_split_not_Nil [of c xs] by (cases "py_split c xs") auto
    with False Cons show ?thesis by (simp add: py_join_Cons)
  qed
qed

lemma deployment_id:
  assumes "startswith model ''deployment/''"
  shows "py_join ''/'' (drop 1 (py_split CHR ''/'' model)) = drop (length ''deployment/'') model"
proof -
  define rest where "rest = drop (length ''deployment/'') model"
  have t: "take (length ''deployment/'') model = ''deployment/''"
    using assms unfolding startswith_def .
  have "take (length ''deployment/'') model @ rest = model"
    unfolding rest_def by (rule append_take_drop_id)
  then have "''deployment/'' @ rest = model"
    by (simp only: t)
  then have m: "model = ''deployment'' @ CHR ''/'' # rest"
    by simp
  have "py_split CHR ''/'' model = py_split CHR ''/'' (''deployment'' @ CHR ''/'' # rest)"
    using m by (rule arg_cong)
  also have "\<dots> = ''deployment'' # py_split CHR ''/'' rest"
    by (rule py_split_prefix) simp
  finally have "drop 1 (py_split CHR ''/'' model) = py_split CHR ''/'' rest"
    by simp
  then have "py_join ''/'' (drop 1 (py_split CHR ''/'' model)) = rest"
    by (simp only: py_join_split)
  then show ?thesis by (simp only: rest_def)
qed

text \<open>
  \<^verbatim>\<open>dict.update\<close> on arguments of each kind: \<^verbatim>\<open>[]\<close> and \<^verbatim>\<open>''\<close> change nothing,
  \<^verbatim>\<open>[[1, 2], [True, 'x']]\<close> writes one key, \<^verbatim>\<open>['ab']\<close> writes \<^verbatim>\<open>'b'\<close> under \<^verbatim>\<open>'a'\<close>,
  \<^verbatim>\<open>[{'a': 1, 'b': 2}]\<close> does the same, and the rest raise.
\<close>

lemma update_with_cases:
  "update_with d (PList []) = Inr d"
  "update_with d (PStr []) = Inr d"
  "update_with d (PStr ''ab'') = Inl ValueError"
  "update_with d PNone = Inl TypeError"
  "update_with d (PInt 3) = Inl TypeError"
  "update_with [] (PList [PList [PInt 1, PInt 2], PList [PBool True, PStr ''x'']])
     = Inr [(KNum 1 0, PStr ''x'')]"
  "update_with [(KStr ''a'', PInt 0)] (PList [PStr ''ab'']) = Inr [(KStr ''a'', PStr ''b'')]"
  "update_with [] (PList [PDict [(KStr ''a'', PInt 1), (KStr ''b'', PInt 2)]])
     = Inr [(KStr ''a'', PStr ''b'')]"
  "update_with [] (PList [PList [PList [], PInt 2]]) = Inl TypeError"
  "update_with [] (PList [PList [PInt 2]]) = Inl ValueError"
  "update_with [] (PList [PInt 2]) = Inl TypeError"
  by (simp_all add: update_with_def pair_of_item_def key_num_def)

lemma merge_extra_body_absent:
  assumes "dict_get params ''extra_body'' = None"
  shows "merge_extra_body params = Inr params"
proof -
  have "AList.delete (KStr ''extra_body'') params = params"
    using assms by (simp add: map_of_eq_None_iff)
  then show ?thesis
    using assms by (simp add: merge_extra_body_def dict_pop_def update_with_def dict_update_def)
qed

lemma merge_extra_body_dict:
  "dict_get params ''extra_body'' = Some (PDict e) \<Longrightarrow>
   merge_extra_body params = Inr (dict_update (AList.delete (KStr ''extra_body'') params) e)"
  by (simp add: merge_extra_body_def dict_pop_def update_with_def)

lemma merge_extra_body_empty:
  "dict_get params ''extra_body'' = Some (PList []) \<or>
   dict_get params ''extra_body'' = Some (PStr []) \<Longrightarrow>
   merge_extra_body params = Inr (AList.delete (KStr ''extra_body'') params)"
  by (auto simp: merge_extra_body_def dict_pop_def update_with_def)

lemma merge_extra_body_pairs:
  "dict_get params ''extra_body'' = Some (PList items) \<Longrightarrow>
   merge_extra_body params =
     update_from_pairs (AList.delete (KStr ''extra_body'') params) items"
  by (simp add: merge_extra_body_def dict_pop_def update_with_def)

lemma transform_request_merge:
  "transform_request E model messages optional_params =
     (case py_split CHR ''/'' model of
        [] \<Rightarrow> Inl (Exception ''IndexError'')
      | provider # _ \<Rightarrow>
          (case convert_watsonx_messages_to_prompt E model messages provider of
             Inl e \<Rightarrow> Inl e
           | Inr prompt \<Rightarrow>
               (case merge_extra_body optional_params of
                  Inl e \<Rightarrow> Inl e
                | Inr params2 \<Rightarrow>
                    (case get_api_params E params2 of
                       Inl e \<Rightarrow> Inl e
                     | Inr (api, params3) \<Rightarrow>
                         if \<not> startswith model ''deployment/'' then
                           (case dict_index api ''project_id'' of
                              Inl e \<Rightarrow> Inl e
                            | Inr project_id \<Rightarrow>
                                Inr [(KStr ''input'', PStr prompt),
                                     (KStr ''moderations'',
                                      fst (dict_pop params3 ''moderations'' (PDict []))),
                                     (KStr ''parameters'',
                                      PDict (AList.delete (KStr ''moderations'') params3)),
                                     (KStr ''model_id'', PStr model),
                                     (KStr ''project_id'', project_id)])
                         else
                           Inr [(KStr ''input'', PStr prompt),
                                (KStr ''moderations'',
                                 fst (dict_pop params3 ''moderations'' (PDict []))),
                                (KStr ''parameters'',
                                 PDict (AList.delete (KStr ''moderations'') params3))]))))"
  by (simp add: transform_request_def merge_extra_body_def dict_pop_def Let_def
      split: list.splits sum.splits prod.splits)

lemma transform_request_deployment:
  assumes "startswith model ''deployment/''"
    and "py_split CHR ''/'' model = provider # rest"
    and "convert_watsonx_messages_to_prompt E model messages provider = Inr prompt"
    and "merge_extra_body params = Inr params2"
    and "get_api_params E params2 = Inr (api, params')"
  shows "transform_request E model messages params =
           Inr [(KStr ''input'', PStr prompt),
                (KStr ''moderations'', fst (dict_pop params' ''moderations'' (PDict []))),
                (KStr ''parameters'', PDict (AList.delete (KStr ''moderations'') params'))]"
  by (simp add: transform_request_merge assms)

text \<open>
  C5, as the code has it. With the base URL resolved: for a model that does not start
  with \<^verbatim>\<open>deployment/\<close> the URL is the base without trailing slashes, then the
  text-generation endpoint (the streaming one when \<^verbatim>\<open>stream\<close> is truthy, the
  non-streaming one otherwise), then the version; for a model \<^verbatim>\<open>deployment/<id>\<close> and
  a \<^verbatim>\<open>space_id\<close> among the parameters, the endpoint is the deployment template filled
  with \<^verbatim>\<open><id>\<close>, streaming or not by the same flag; for such a model without a
  \<^verbatim>\<open>space_id\<close> the call fails with \<^verbatim>\<open>WatsonXAIError\<close> 401. The payload of a deployment
  model has the fields \<^verbatim>\<open>input\<close>, \<^verbatim>\<open>moderations\<close> and \<^verbatim>\<open>parameters\<close> and no
  others, so neither \<^verbatim>\<open>model_id\<close> nor \<^verbatim>\<open>project_id\<close>; it is built whenever the
  helpers succeed.
\<close>

theorem endpoint_templates:
  assumes "resolve_url E api_base = Some url"
  shows
    "(\<not> startswith model ''deployment/'' \<longrightarrow>
        get_complete_url E api_base model optional_params stream =
          Inr (rstrip CHR ''/'' url
                 @ (if truthy stream then TEXT_GENERATION_STREAM E else TEXT_GENERATION E)
                 @ ''?version=''
                 @ fstring E (fst (dict_pop optional_params ''api_version''
                                     (PStr (WATSONX_DEFAULT_API_VERSION E)))),
               AList.delete (KStr ''api_version'') optional_params))
     \<and> (startswith model ''deployment/'' \<longrightarrow> py_get optional_params ''space_id'' \<noteq> PNone \<longrightarrow>
        get_complete_url E api_base model optional_params stream =
          Inr (rstrip CHR ''/'' url
                 @ (if truthy stream then DEPLOYMENT_TEXT_GENERATION_STREAM E
                    else DEPLOYMENT_TEXT_GENERATION E) (drop (length ''deployment/'') model)
                 @ ''?version=''
                 @ fstring E (fst (dict_pop optional_params ''api_version''
                                     (PStr (WATSONX_DEFAULT_API_VERSION E)))),
               AList.delete (KStr ''api_version'') optional_params))
     \<and> (startswith model ''deployment/'' \<longrightarrow> py_get optional_params ''space_id'' = PNone \<longrightarrow>
        get_complete_url E api_base model optional_params stream =
          Inl (WatsonXAIError 401 space_id_required_message))
     \<and> (startswith model ''deployment/'' \<longrightarrow>
        (\<forall>payload. transform_request E model messages params = Inr payload \<longrightarrow>
           map fst payload = map KStr [''input'', ''moderations'', ''parameters'']))
     \<and> (startswith model ''deployment/'' \<longrightarrow>
        (\<forall>provider rest prompt params2 api params'.
           py_split CHR ''/'' model = provider # rest \<longrightarrow>
           convert_watsonx_messages_to_prompt E model messages provider = Inr prompt \<longrightarrow>
           merge_extra_body params = Inr params2 \<longrightarrow>
           get_api_params E params2 = Inr (api, params') \<longrightarrow>
           transform_request E model messages params =
             Inr [(KStr ''input'', PStr prompt),
                  (KStr ''moderations'', fst (dict_pop params' ''moderations'' (PDict []))),
                  (KStr ''parameters'', PDict (AList.delete (KStr ''moderations'') params'))]))"
proof -
  have c1: "\<not> startswith model ''deployment/'' \<longrightarrow>
        get_complete_url E api_base model optional_params stream =
          Inr (rstrip CHR ''/'' url
                 @ (if truthy stream then TEXT_GENERATION_STREAM E else TEXT_GENERATION E)
                 @ ''?version=''
                 @ fstring E (fst (dict_pop optional_params ''api_version''
                                     (PStr (WATSONX_DEFAULT_API_VERSION E)))),
               AList.delete (KStr ''api_version'') optional_params)"
    using assms by (simp add: get_complete_url_def select_endpoint_def dict_pop_def)
  have c2: "startswith model ''deployment/'' \<longrightarrow> py_get optional_params ''space_id'' \<noteq> PNone \<longrightarrow>
        get_complete_url E api_base model optional_params stream =
          Inr (rstrip CHR ''/'' url
                 @ (if truthy stream then DEPLOYMENT_TEXT_GENERATION_STREAM E
                    else DEPLOYMENT_TEXT_GENERATION E) (drop (length ''deployment/'') model)
                 @ ''?version=''
                 @ fstring E (fst (dict_pop optional_params ''api_version''
                                     (PStr (WATSONX_DEFAULT_API_VERSION E)))),
               AList.delete (KStr ''api_version'') optional_params)"
  proof (intro impI)
    assume m: "startswith model ''deployment/''" and s: "py_get optional_params ''space_id'' \<noteq> PNone"
    have "select_endpoint E model optional_params stream =
        Inr ((if truthy stream then DEPLOYMENT_TEXT_GENERATION_STREAM E
              else DEPLOYMENT_TEXT_GENERATION E) (drop (length ''deployment/'') model))"
      using m s deployment_id [OF m] by (simp only: select_endpoint_def Let_def if_True if_False)
    then show "get_complete_url E api_base model optional_params stream =
          Inr (rstrip CHR ''/'' url
                 @ (if truthy stream then DEPLOYMENT_TEXT_GENERATION_STREAM E
                    else DEPLOYMENT_TEXT_GENERATION E) (drop (length ''deployment/'') model)
                 @ ''?version=''
                 @ fstring E (fst (dict_pop optional_params ''api_version''
                                     (PStr (WATSONX_DEFAULT_API_VERSION E)))),
               AList.delete (KStr ''api_version'') optional_params)"
      using assms by (simp add: get_complete_url_def dict_pop_def)
  qed
  have c3: "startswith model ''deployment/'' \<longrightarrow> py_get optional_params ''space_id'' = PNone \<longrightarrow>
        get_complete_url E api_base model optional_params stream =
          Inl (WatsonXAIError 401 space_id_required_message)"
    using assms by (simp add: get_complete_url_def select_endpoint_def)
  have c4: "startswith model ''deployment/'' \<longrightarrow>
        (\<forall>payload. transform_request E model messages params = Inr payload \<longrightarrow>
           map fst payload = map KStr [''input'', ''moderations'', ''parameters''])"
    by (auto simp: transform_request_def Let_def split: list.splits sum.splits prod.splits)
  have c5: "startswith model ''deployment/'' \<longrightarrow>
        (\<forall>provider rest prompt params2 api params'.
           py_split CHR ''/'' model = provider # rest \<longrightarrow>
           convert_watsonx_messages_to_prompt E model messages provider = Inr prompt \<longrightarrow>
           merge_extra_body params = Inr params2 \<longrightarrow>
           get_api_params E params2 = Inr (api, params') \<longrightarrow>
           transform_request E model messages params =
             Inr [(KStr ''input'', PStr prompt),
                  (KStr ''moderations'', fst (dict_pop params' ''moderations'' (PDict []))),
                  (KStr ''parameters'', PDict (AList.delete (KStr ''moderations'') params'))])"
    using transform_request_deployment [of model _ _ E messages _ params] by blast
  from c1 c2 c3 c4 c5 show ?thesis by blast
qed

text \<open>
  A deployment model and no \<^verbatim>\<open>space_id\<close>: no deployment URL is built, the guard raises.
\<close>

theorem deployment_without_space_id_counterexample:
  "get_complete_url example_env (Some ''https://us-south.ml.cloud.ibm.com'')
      ''deployment/abc123'' [] (PBool False)
     = Inl (WatsonXAIError 401 space_id_required_message)"
  by (simp add: get_complete_url_def resolve_url_def py_or_def select_endpoint_def
      startswith_def py_get_def)

theorem endpoint_templates_witness:
  "resolve_url example_env (Some ''https://us-south.ml.cloud.ibm.com/'')
     = Some ''https://us-south.ml.cloud.ibm.com/''
   \<and> get_complete_url example_env (Some ''https://us-south.ml.cloud.ibm.com/'') ''foo'' []
       (PBool False)
     = Inr (''https://us-south.ml.cloud.ibm.com/ml/v1/text/generation?version=2024-03-13'', [])
   \<and> get_complete_url example_env (Some ''https://us-south.ml.cloud.ibm.com/'') ''foo'' []
       (PBool True)
     = Inr (''https://us-south.ml.cloud.ibm.com/ml/v1/text/generation_stream?version=2024-03-13'',
            [])
   \<and> get_complete_url example_env (Some ''https://us-south.ml.cloud.ibm.com/'')
       ''deployment/abc123'' [(KStr ''space_id'', PStr ''sp1'')] (PBool False)
     = Inr (''https://us-south.ml.cloud.ibm.com/ml/v1/deployments/abc123/text/generation?version=2024-03-13'',
            [(KStr ''space_id'', PStr ''sp1'')])
   \<and> transform_request example_env ''deployment/abc123''
       [PDict [(KStr ''role'', PStr ''user''), (KStr ''content'', PStr ''hi'')]]
       [(KStr ''temperature'', PFloat 1 (-1)), (KStr ''project_id'', PStr ''p1''),
        (KStr ''extra_body'', PList [])]
     = Inr [(KStr ''input'', PStr ''hi''), (KStr ''moderations'', PDict []),
            (KStr ''parameters'', PDict [(KStr ''temperature'', PFloat 1 (-1))])]"
proof -
  let ?base = "Some ''https://us-south.ml.cloud.ibm.com/''"
  have r: "resolve_url example_env ?base = Some ''https://us-south.ml.cloud.ibm.com/''"
    by (simp add: resolve_url_def py_or_def)
  have strip: "rstrip CHR ''/'' ''https://us-south.ml.cloud.ibm.com/''
      = ''https://us-south.ml.cloud.ibm.com''"
    by (simp add: rstrip_def)
  have t: "transform_request example_env ''deployment/abc123''
       [PDict [(KStr ''role'', PStr ''user''), (KStr ''content'', PStr ''hi'')]]
       [(KStr ''temperature'', PFloat 1 (-1)), (KStr ''project_id'', PStr ''p1''),
        (KStr ''extra_body'', PList [])]
     = Inr [(KStr ''input'', PStr ''hi''), (KStr ''moderations'', PDict []),
            (KStr ''parameters'', PDict [(KStr ''temperature'', PFloat 1 (-1))])]"
    by (simp add: transform_request_def example_env_def example_get_api_params_def dict_pop_def
        update_with_def dict_update_def startswith_def)
  have a: "get_complete_url example_env ?base ''foo'' [] (PBool False)
     = Inr (''https://us-south.ml.cloud.ibm.com/ml/v1/text/generation?version=2024-03-13'', [])"
    using endpoint_templates [OF r, of "''foo''" "[]" "PBool False"]
    by (simp add: strip startswith_def dict_pop_def fstring_def example_env_def)
  have b: "get_complete_url example_env ?base ''foo'' [] (PBool True)
     = Inr (''https://us-south.ml.cloud.ibm.com/ml/v1/text/generation_stream?version=2024-03-13'',
            [])"
    using endpoint_templates [OF r, of "''foo''" "[]" "PBool True"]
    by (simp add: strip startswith_def dict_pop_def fstring_def example_env_def)
  have c: "get_complete_url example_env ?base
       ''deployment/abc123'' [(KStr ''space_id'', PStr ''sp1'')] (PBool False)
     = Inr (''https://us-south.ml.cloud.ibm.com/ml/v1/deployments/abc123/text/generation?version=2024-03-13'',
            [(KStr ''space_id'', PStr ''sp1'')])"
    using endpoint_templates [OF r, of "''deployment/abc123''" "[(KStr ''space_id'', PStr ''sp1'')]"
        "PBool False"]
    by (simp add: strip startswith_def dict_pop_def fstring_def example_env_def py_get_def)
  from r a b c t show ?thesis by blast
qed

subsection \<open>Resolving the base URL\<close>

lemma py_or_nonempty: "nonempty a \<Longrightarrow> py_or a b = a"
  by (auto simp: py_or_def nonempty_def split: option.splits)

lemma py_or_skip: "\<not> nonempty a \<Longrightarrow> py_or a b = b"
  by (auto simp: py_or_def nonempty_def split: option.splits)

lemma resolve_url_priority:
  "resolve_url E api_base =
     (case List.find nonempty
             [api_base, get_secret_str E ''WATSONX_API_BASE'', get_secret_str E ''WATSONX_URL'',
              get_secret_str E ''WX_URL'', get_secret_str E ''WML_URL''] of
        Some x \<Rightarrow> x
      | None \<Rightarrow> get_secret_str E ''WML_URL'')"
  by (simp add: resolve_url_def py_or_nonempty py_or_skip)

lemma get_complete_url_unset:
  "\<not> nonempty api_base \<Longrightarrow> (\<forall>name. get_secret_str E name = None) \<Longrightarrow>
   get_complete_url E api_base model optional_params stream
     = Inl (WatsonXAIError 401 url_not_set_message)"
  by (auto simp: get_complete_url_def resolve_url_def py_or_def nonempty_def split: option.splits)

text \<open>
  C4. The chain of \<^verbatim>\<open>or\<close> yields the first source, in the order \<^verbatim>\<open>api_base\<close>,
  \<^verbatim>\<open>WATSONX_API_BASE\<close>, \<^verbatim>\<open>WATSONX_URL\<close>, \<^verbatim>\<open>WX_URL\<close>, \<^verbatim>\<open>WML_URL\<close>, that is a
  non-empty string (\<open>resolve_url_priority\<close>), and with no source set the call fails with
  \<^verbatim>\<open>WatsonXAIError\<close> 401 (\<open>get_complete_url_unset\<close>). Here the code runs where nothing
  resolves and the last alias is set to the empty string: the chain ends on that empty
  string, the test \<^verbatim>\<open>url is None\<close> lets it through, and a URL without a base is returned
  where the error is due.
\<close>

theorem empty_alias_escapes_url_check:
  "resolve_url (example_env\<lparr>get_secret_str := [''WML_URL'' \<mapsto> '''']\<rparr>) None = Some ''''
   \<and> get_complete_url (example_env\<lparr>get_secret_str := [''WML_URL'' \<mapsto> '''']\<rparr>) None
        ''ibm/granite-13b'' [] PNone
      = Inr (''/ml/v1/text/generation?version=2024-03-13'', [])"
  by (simp add: get_complete_url_def resolve_url_def py_or_def select_endpoint_def
      startswith_def dict_pop_def fstring_def rstrip_def example_env_def)

section \<open>Properties of the payload\<close>

text \<open>
  The request of scenario 1, mapped and transformed: the payload's \<^verbatim>\<open>model_id\<close> is
  \<^verbatim>\<open>ibm/granite-13b\<close>, prefix included, not \<^verbatim>\<open>granite-13b\<close>.
\<close>

theorem model_id_keeps_prefix_counterexample:
  "transform_request example_env ''ibm/granite-13b''
      [PDict [(KStr ''role'', PStr ''user''), (KStr ''content'', PStr ''hi'')]]
      (map_openai_params [(KStr ''temperature'', PFloat 1 (-1))] [(KStr ''project_id'', PStr ''p1'')]
         ''ibm/granite-13b'' False)
     = Inr [(KStr ''input'', PStr ''hi''), (KStr ''moderations'', PDict []),
            (KStr ''parameters'', PDict [(KStr ''temperature'', PFloat 1 (-1))]),
            (KStr ''model_id'', PStr ''ibm/granite-13b''), (KStr ''project_id'', PStr ''p1'')]
   \<and> PStr ''ibm/granite-13b'' \<noteq> PStr ''granite-13b''"
  by (simp add: transform_request_def map_openai_params_def example_env_def
      example_get_api_params_def dict_pop_def update_with_def dict_update_def startswith_def
      dict_index_def)

text \<open>
  C1, as the code has it. For a model that does not start with \<^verbatim>\<open>deployment/\<close>, every
  payload \<^verbatim>\<open>transform_request\<close> returns holds under \<^verbatim>\<open>model_id\<close> the model string
  exactly as it was passed, with whatever prefix it has; its fields are \<^verbatim>\<open>input\<close>,
  \<^verbatim>\<open>moderations\<close>, \<^verbatim>\<open>parameters\<close>, \<^verbatim>\<open>model_id\<close> and \<^verbatim>\<open>project_id\<close>, with no
  deployment path; its \<^verbatim>\<open>parameters\<close> object is what \<^verbatim>\<open>_get_api_params\<close> leaves of
  the parameters with the extra body folded in, \<^verbatim>\<open>moderations\<close> apart, so the mapped
  temperature is there whenever that helper leaves it. The payload is returned whenever
  the prompt conversion, the folding of the extra body and \<^verbatim>\<open>_get_api_params\<close> succeed
  and the latter names a project; parameters without \<^verbatim>\<open>extra_body\<close> are folded as they
  are.
\<close>

theorem transform_request_model_id:
  assumes "\<not> startswith model ''deployment/''"
  shows
    "(\<forall>payload. transform_request E model messages optional_params = Inr payload \<longrightarrow>
        dict_get payload ''model_id'' = Some (PStr model)
        \<and> map fst payload =
            map KStr [''input'', ''moderations'', ''parameters'', ''model_id'', ''project_id'']
        \<and> (\<exists>params2 api params'.
              merge_extra_body optional_params = Inr params2 \<and>
              get_api_params E params2 = Inr (api, params') \<and>
              dict_get payload ''parameters''
                = Some (PDict (AList.delete (KStr ''moderations'') params')) \<and>
              dict_get payload ''project_id'' = dict_get api ''project_id'')
        \<and> (dict_get optional_params ''extra_body'' = None \<longrightarrow>
            (\<exists>api params'.
               get_api_params E optional_params = Inr (api, params') \<and>
               dict_get payload ''parameters''
                 = Some (PDict (AList.delete (KStr ''moderations'') params')) \<and>
               dict_get payload ''project_id'' = dict_get api ''project_id'')))
     \<and> (\<forall>provider rest prompt params2 api params' project_id.
          py_split CHR ''/'' model = provider # rest \<longrightarrow>
          convert_watsonx_messages_to_prompt E model messages provider = Inr prompt \<longrightarrow>
          merge_extra_body optional_params = Inr params2 \<longrightarrow>
          get_api_params E params2 = Inr (api, params') \<longrightarrow>
          dict_get api ''project_id'' = Some project_id \<longrightarrow>
          transform_request E model messages optional_params =
            Inr [(KStr ''input'', PStr prompt),
                 (KStr ''moderations'', fst (dict_pop params' ''moderations'' (PDict []))),
                 (KStr ''parameters'', PDict (AList.delete (KStr ''moderations'') params')),
                 (KStr ''model_id'', PStr model),
                 (KStr ''project_id'', project_id)])
     \<and> (dict_get optional_params ''extra_body'' = None \<longrightarrow>
          merge_extra_body optional_params = Inr optional_params)"
proof -
  have absent: "merge_extra_body optional_params = Inr optional_params"
    if "dict_get optional_params ''extra_body'' = None"
    using that by (rule merge_extra_body_absent)
  have returned: "dict_get payload ''model_id'' = Some (PStr model)
        \<and> map fst payload =
            map KStr [''input'', ''moderations'', ''parameters'', ''model_id'', ''project_id'']
        \<and> (\<exists>params2 api params'.
              merge_extra_body optional_params = Inr params2 \<and>
              get_api_params E params2 = Inr (api, params') \<and>
              dict_get payload ''parameters''
                = Some (PDict (AList.delete (KStr ''moderations'') params')) \<and>
              dict_get payload ''project_id'' = dict_get api ''project_id'')"
    if "transform_request E model messages optional_params = Inr payload" for payload
    using that assms
    by (auto simp: transform_request_merge dict_index_def
        split: list.splits sum.splits prod.splits option.splits)
  have returned': "\<exists>api params'.
               get_api_params E optional_params = Inr (api, params') \<and>
               dict_get payload ''parameters''
                 = Some (PDict (AList.delete (KStr ''moderations'') params')) \<and>
               dict_get payload ''project_id'' = dict_get api ''project_id''"
    if "transform_request E model messages optional_params = Inr payload"
      and "dict_get optional_params ''extra_body'' = None" for payload
    using returned [OF that(1)] absent [OF that(2)] by auto
  have returns: "transform_request E model messages optional_params =
            Inr [(KStr ''input'', PStr prompt),
                 (KStr ''moderations'', fst (dict_pop params' ''moderations'' (PDict []))),
                 (KStr ''parameters'', PDict (AList.delete (KStr ''moderations'') params')),
                 (KStr ''model_id'', PStr model),
                 (KStr ''project_id'', project_id)]"
    if "py_split CHR ''/'' model = provider # rest"
      and "convert_watsonx_messages_to_prompt E model messages provider = Inr prompt"
      and "merge_extra_body optional_params = Inr params2"
      and "get_api_params E params2 = Inr (api, params')"
      and "dict_get api ''project_id'' = Some project_id"
    for provider rest prompt params2 api params' project_id
    using that assms by (simp add: transform_request_merge dict_index_def)
  from absent returned returned' returns show ?thesis by blast
qed

theorem transform_request_model_id_witness:
  "\<not> startswith ''ibm/granite-13b'' ''deployment/''
   \<and> transform_request example_env ''ibm/granite-13b''
       [PDict [(KStr ''role'', PStr ''user''), (KStr ''content'', PStr ''hi'')]]
       [(KStr ''temperature'', PFloat 1 (-1)), (KStr ''max_new_tokens'', PInt 20),
        (KStr ''project_id'', PStr ''p1'')]
     = Inr [(KStr ''input'', PStr ''hi''), (KStr ''moderations'', PDict []),
            (KStr ''parameters'',
             PDict [(KStr ''temperature'', PFloat 1 (-1)), (KStr ''max_new_tokens'', PInt 20)]),
            (KStr ''model_id'', PStr ''ibm/granite-13b''), (KStr ''project_id'', PStr ''p1'')]
   \<and> dict_get [(KStr ''input'', PStr ''hi''), (KStr ''moderations'', PDict []),
            (KStr ''parameters'',
             PDict [(KStr ''temperature'', PFloat 1 (-1)), (KStr ''max_new_tokens'', PInt 20)]),
            (KStr ''model_id'', PStr ''ibm/granite-13b''), (KStr ''project_id'', PStr ''p1'')]
       ''model_id'' = Some (PStr ''ibm/granite-13b'')
   \<and> transform_request example_env ''ibm/granite-13b''
       [PDict [(KStr ''role'', PStr ''user''), (KStr ''content'', PStr ''hi'')]]
       [(KStr ''temperature'', PFloat 1 (-1)), (KStr ''project_id'', PStr ''p1''),
        (KStr ''extra_body'', PList [PList [PStr ''top_k'', PInt 3], PStr ''ab''])]
     = Inr [(KStr ''input'', PStr ''hi''), (KStr ''moderations'', PDict []),
            (KStr ''parameters'',
             PDict [(KStr ''temperature'', PFloat 1 (-1)), (KStr ''top_k'', PInt 3),
                    (KStr ''a'', PStr ''b'')]),
            (KStr ''model_id'', PStr ''ibm/granite-13b''), (KStr ''project_id'', PStr ''p1'')]"
proof -
  let ?messages = "[PDict [(KStr ''role'', PStr ''user''), (KStr ''content'', PStr ''hi'')]]"
  let ?params = "[(KStr ''temperature'', PFloat 1 (-1)), (KStr ''max_new_tokens'', PInt 20),
        (KStr ''project_id'', PStr ''p1'')]"
  let ?params' = "[(KStr ''temperature'', PFloat 1 (-1)), (KStr ''project_id'', PStr ''p1''),
        (KStr ''extra_body'', PList [PList [PStr ''top_k'', PInt 3], PStr ''ab''])]"
  have nd: "\<not> startswith ''ibm/granite-13b'' ''deployment/''"
    by (simp add: startswith_def)
  have split: "py_split CHR ''/'' ''ibm/granite-13b'' = [''ibm'', ''granite-13b'']"
    by simp
  have conv: "convert_watsonx_messages_to_prompt example_env ''ibm/granite-13b'' ?messages ''ibm''
      = Inr ''hi''"
    by (simp add: example_env_def)
  have m1: "merge_extra_body ?params = Inr ?params"
    by (rule merge_extra_body_absent) simp
  have m2: "merge_extra_body ?params'
      = Inr [(KStr ''temperature'', PFloat 1 (-1)), (KStr ''project_id'', PStr ''p1''),
             (KStr ''top_k'', PInt 3), (KStr ''a'', PStr ''b'')]"
    by (simp add: merge_extra_body_def dict_pop_def update_with_def pair_of_item_def)
  have a1: "get_api_params example_env ?params
      = Inr ([(KStr ''project_id'', PStr ''p1'')],
             [(KStr ''temperature'', PFloat 1 (-1)), (KStr ''max_new_tokens'', PInt 20)])"
    by (simp add: example_env_def example_get_api_params_def dict_pop_def)
  have a2: "get_api_params example_env
        [(KStr ''temperature'', PFloat 1 (-1)), (KStr ''project_id'', PStr ''p1''),
         (KStr ''top_k'', PInt 3), (KStr ''a'', PStr ''b'')]
      = Inr ([(KStr ''project_id'', PStr ''p1'')],
             [(KStr ''temperature'', PFloat 1 (-1)), (KStr ''top_k'', PInt 3),
              (KStr ''a'', PStr ''b'')])"
    by (simp add: example_env_def example_get_api_params_def dict_pop_def)
  have pid: "dict_get [(KStr ''project_id'', PStr ''p1'')] ''project_id'' = Some (PStr ''p1'')"
    by simp
  have r1: "transform_request example_env ''ibm/granite-13b'' ?messages ?params
     = Inr [(KStr ''input'', PStr ''hi''), (KStr ''moderations'', PDict []),
            (KStr ''parameters'',
             PDict [(KStr ''temperature'', PFloat 1 (-1)), (KStr ''max_new_tokens'', PInt 20)]),
            (KStr ''model_id'', PStr ''ibm/granite-13b''), (KStr ''project_id'', PStr ''p1'')]"
    using transform_request_model_id [OF nd, of example_env ?messages ?params]
      split conv m1 a1 pid
    by (simp add: dict_pop_def)
  have r2: "transform_request example_env ''ibm/granite-13b'' ?messages ?params'
     = Inr [(KStr ''input'', PStr ''hi''), (KStr ''moderations'', PDict []),
            (KStr ''parameters'',
             PDict [(KStr ''temperature'', PFloat 1 (-1)), (KStr ''top_k'', PInt 3),
                    (KStr ''a'', PStr ''b'')]),
            (KStr ''model_id'', PStr ''ibm/granite-13b''), (KStr ''project_id'', PStr ''p1'')]"
    using transform_request_model_id [OF nd, of example_env ?messages ?params']
      split conv m2 a2 pid
    by (simp add: dict_pop_def)
  from nd r1 r2 show ?thesis by simp
qed

section \<open>Properties of the secret helpers\<close>

text \<open>
  C9. \<^verbatim>\<open>decrypt_value_helper\<close> returns on every input and raises on none: whatever fails
  inside its \<^verbatim>\<open>try\<close> block (the base64 decoding, the key, the box, the UTF-8 decoding)
  is caught, and the call returns \<^verbatim>\<open>None\<close>.
\<close>

theorem decrypt_value_helper_never_raises:
  "(\<exists>r. decrypt_value_helper C S value = Inr r)
   \<and> (\<forall>e. decrypt_value_helper_try C (get_salt_key S) value = Inl e \<longrightarrow>
         decrypt_value_helper C S value = Inr (SOther PNone))
   \<and> (\<forall>s e. value = SStr s \<longrightarrow> b64decode C s = Inl e \<longrightarrow>
         decrypt_value_helper C S value = Inr (SOther PNone))
   \<and> (\<forall>s b e. value = SStr s \<longrightarrow> b64decode C s = Inr b \<longrightarrow>
         decrypt_value C b (get_salt_key S) = Inl e \<longrightarrow>
         decrypt_value_helper C S value = Inr (SOther PNone))"
  by (auto simp: decrypt_value_helper_def decrypt_value_helper_try_def Let_def
      split: sum.splits secret_value.splits)

lemma unary_decode_code_point:
  "unary_decode n (replicate k 1 @ 0 # rest) = (n + k) # unary_decode 0 rest"
  by (induction k arbitrary: n) simp_all

lemma unary_decode_encode:
  "unary_decode 0 (concat (map (\<lambda>cp. replicate cp 1 @ [0]) s)) = s"
  by (induction s) (simp_all add: unary_decode_code_point)

lemma byte_of_unat: "map (of_nat \<circ> unat) (b :: bytes) = b"
  by (induction b) simp_all

lemma example_crypto_contract: "crypto_contract example_crypto"
proof -
  have box: "\<forall>key nonce m.
      box_decrypt example_crypto key (box_encrypt example_crypto key nonce m) = Inr m"
    by (simp add: example_crypto_def)
  have utf: "\<forall>s. encodable s \<longrightarrow>
      utf8_decode example_crypto (utf8_bytes example_crypto s) = Inr s"
    by (simp add: example_crypto_def unary_decode_encode)
  have b64: "\<forall>b. b64decode example_crypto (b64encode example_crypto b) = Inr b"
    by (simp add: example_crypto_def byte_of_unat)
  from box utf b64 show ?thesis
    unfolding crypto_contract_def by blast
qed

theorem decrypt_value_helper_never_raises_witness:
  "decrypt_value_helper_try example_crypto
      (get_salt_key \<lparr>LITELLM_SALT_KEY = Some (unicode_of ''k2''),
                     master_key = Some (unicode_of ''sk-1234'')\<rparr>)
      (SStr (unicode_of ''xx'')) = Inl CryptoError
   \<and> decrypt_value_helper example_crypto
      \<lparr>LITELLM_SALT_KEY = Some (unicode_of ''k2''), master_key = Some (unicode_of ''sk-1234'')\<rparr>
      (SStr (unicode_of ''xx'')) = Inr (SOther PNone)"
proof -
  let ?S = "\<lparr>LITELLM_SALT_KEY = Some (unicode_of ''k2''),
             master_key = Some (unicode_of ''sk-1234'')\<rparr>"
  have ne: "[120, 120] \<noteq> replicate 32 (1 :: 8 word)"
    by (auto dest: arg_cong [where f = length])
  have f: "decrypt_value_helper_try example_crypto (get_salt_key ?S) (SStr (unicode_of ''xx''))
      = Inl CryptoError"
    by (simp add: decrypt_value_helper_try_def decrypt_value_def get_salt_key_def
        utf8_encode_def encodable_def is_surrogate_def unicode_of_def example_crypto_def
        Let_def ne)
  from decrypt_value_helper_never_raises [of example_crypto ?S "SStr (unicode_of ''xx'')"] f
  show ?thesis by simp
qed

text \<open>
  A secret that holds a lone surrogate, \<^verbatim>\<open>"\ud800"\<close>: \<^verbatim>\<open>value.encode("utf-8")\<close> raises
  and nothing is encrypted, so there is nothing to decrypt back; the same for such a key.
\<close>

theorem surrogate_not_encrypted_counterexample:
  "encrypt_value example_crypto [] [0xD800] (Some (unicode_of ''sk-1234''))
     = Inl UnicodeEncodeError
   \<and> encrypt_value example_crypto [] (unicode_of ''s3cret'') (Some [0xD800])
     = Inl UnicodeEncodeError"
  by (simp add: encrypt_value_def utf8_encode_def encodable_def is_surrogate_def unicode_of_def)

text \<open>
  C10, as the code has it. Under the contracts of the primitives, for every string \<open>s\<close>
  and every signing key \<open>k\<close> that UTF-8 can encode, and every nonce:
  \<^verbatim>\<open>decrypt_value(encrypt_value(s, k), k)\<close> is \<open>s\<close>; and with the same such key in effect
  for both calls, \<^verbatim>\<open>decrypt_value_helper(encrypt_value_helper(s))\<close> is \<open>s\<close>. When \<open>s\<close> or
  \<open>k\<close> cannot be encoded, \<^verbatim>\<open>encrypt_value\<close> raises \<^verbatim>\<open>UnicodeEncodeError\<close>.
\<close>

theorem encrypt_decrypt_round_trip:
  assumes "crypto_contract C"
  shows "(encodable s \<longrightarrow> encodable k \<longrightarrow>
          (\<exists>c. encrypt_value C nonce s (Some k) = Inr c \<and>
               decrypt_value C c (Some k) = Inr s))
     \<and> (encodable s \<longrightarrow> encodable k \<longrightarrow>
          get_salt_key S = Some k \<longrightarrow> get_salt_key S' = Some k \<longrightarrow>
          (\<exists>v. encrypt_value_helper C S nonce (SStr s) = Inr v \<and>
               decrypt_value_helper C S' v = Inr (SStr s)))
     \<and> (\<not> encodable s \<or> \<not> encodable k \<longrightarrow>
          encrypt_value C nonce s (Some k) = Inl UnicodeEncodeError)"
  using assms
  by (auto simp: crypto_contract_def encrypt_value_def decrypt_value_def utf8_encode_def
      encrypt_value_helper_def decrypt_value_helper_def decrypt_value_helper_try_def Let_def)

theorem encrypt_decrypt_round_trip_witness:
  "crypto_contract example_crypto
   \<and> encodable (unicode_of ''s3cret'') \<and> encodable (unicode_of ''sk-1234'')
   \<and> (\<exists>c. encrypt_value example_crypto [1, 2, 3] (unicode_of ''s3cret'')
            (Some (unicode_of ''sk-1234'')) = Inr c \<and>
          decrypt_value example_crypto c (Some (unicode_of ''sk-1234''))
            = Inr (unicode_of ''s3cret''))
   \<and> (\<exists>v. encrypt_value_helper example_crypto
             \<lparr>LITELLM_SALT_KEY = None, master_key = Some (unicode_of ''sk-1234'')\<rparr> [1, 2, 3]
             (SStr (unicode_of ''s3cret'')) = Inr v \<and>
          decrypt_value_helper example_crypto
             \<lparr>LITELLM_SALT_KEY = None, master_key = Some (unicode_of ''sk-1234'')\<rparr> v
            = Inr (SStr (unicode_of ''s3cret'')))"
proof -
  let ?S = "\<lparr>LITELLM_SALT_KEY = None, master_key = Some (unicode_of ''sk-1234'')\<rparr>"
  have k: "get_salt_key ?S = Some (unicode_of ''sk-1234'')"
    by (simp add: get_salt_key_def)
  have es: "encodable (unicode_of ''s3cret'')"
    by (simp add: encodable_def is_surrogate_def unicode_of_def)
  have ek: "encodable (unicode_of ''sk-1234'')"
    by (simp add: encodable_def is_surrogate_def unicode_of_def)
  from encrypt_decrypt_round_trip [OF example_crypto_contract, of "unicode_of ''s3cret''"
      "unicode_of ''sk-1234''" "[1, 2, 3]" ?S ?S] k es ek example_crypto_contract
  show ?thesis by simp
qed

end
